theory Spec2Isabelle
  imports Complex_Main "HOL-Library.Word" "HOL-Library.AList" "HOL-Library.Multiset"
    "HOL-Library.Log_Nat"
begin

section \<open>External primitives\<close>

text \<open>
  The application is a browser client. Three things it calls are not part of the
  repository: the CryptoJS library (SHA-256, SHA-512, AES with a passphrase), the
  engine's \<^verbatim>\<open>JSON.stringify\<close>/\<^verbatim>\<open>JSON.parse\<close>, and the clock and random source.
  They are parameters of the model, collected in the record \<open>lib\<close>; every theorem below
  holds for every choice of them unless it says otherwise. Clock readings and random
  strings are passed to each operation explicitly.
\<close>

text \<open>JSON values, as \<^verbatim>\<open>JSON.parse\<close> produces them. Numbers are idealised as rationals.\<close>

datatype json =
    JNull
  | JBool bool
  | JNum rat
  | JStr string
  | JArr "json list"
  | JObj "(string \<times> json) list"

text \<open>JavaScript truthiness of a parsed JSON value, as \<^verbatim>\<open>x || []\<close> tests it.\<close>

fun truthy :: "json \<Rightarrow> bool" where
  "truthy JNull = False"
| "truthy (JBool b) = b"
| "truthy (JNum n) = (n \<noteq> 0)"
| "truthy (JStr s) = (s \<noteq> [])"
| "truthy (JArr xs) = True"
| "truthy (JObj kvs) = True"

record lib =
  SHA256 :: "string \<Rightarrow> 256 word"
  SHA512 :: "string \<Rightarrow> 512 word"
  AES_encrypt :: "string \<Rightarrow> string \<Rightarrow> 64 word \<Rightarrow> string"
  AES_decrypt_Utf8 :: "string \<Rightarrow> string \<Rightarrow> string option"
  JSON_stringify :: "json \<Rightarrow> string"
  JSON_parse :: "string \<Rightarrow> json option"

text \<open>
  \<open>SHA256\<close> and \<open>SHA512\<close> are the digests as bit vectors. \<open>AES_encrypt data key salt\<close>
  is \<^verbatim>\<open>CryptoJS.AES.encrypt(data, key).toString()\<close>, which draws a random 64-bit salt.
  \<open>AES_decrypt_Utf8 c key\<close> is \<^verbatim>\<open>CryptoJS.AES.decrypt(c, key).toString(CryptoJS.enc.Utf8)\<close>,
  with \<open>None\<close> when that throws (malformed UTF-8). \<open>JSON_parse\<close> gives \<open>None\<close> when
  \<^verbatim>\<open>JSON.parse\<close> throws a SyntaxError.
\<close>

text \<open>\<^verbatim>\<open>WordArray.toString()\<close>: lower-case hexadecimal, most significant digit first.\<close>

definition hex_digit :: "nat \<Rightarrow> char" where
  "hex_digit n = ''0123456789abcdef'' ! (n mod 16)"

definition nibble :: "'a::len word \<Rightarrow> nat \<Rightarrow> nat" where
  "nibble w i = take_bit 4 (drop_bit (4 * i) (unat w))"

definition hex_of_word :: "'a::len word \<Rightarrow> string" where
  "hex_of_word w = map (\<lambda>i. hex_digit (nibble w i)) (rev [0..<LENGTH('a) div 4])"

section \<open>crypto.ts\<close>

definition SECRET_KEY :: string where
  "SECRET_KEY = ''voting-platform-secret-2024''"

definition ENCRYPTION_KEY :: string where
  "ENCRYPTION_KEY = ''secure-voting-encryption-key-2024''"

text \<open>The five fields \<^verbatim>\<open>hashVote\<close> reads; a \<^verbatim>\<open>Vote\<close> extends them.\<close>

record VoteData =
  electionId :: string
  positionId :: string
  candidateId :: string
  voterToken :: string
  timestamp :: string

record Vote = VoteData +
  vote_id :: string
  cryptographicHash :: string
  verified :: bool

definition voteString :: "'a VoteData_scheme \<Rightarrow> string" where
  "voteString vote =
     electionId vote @ ''-'' @ positionId vote @ ''-'' @ candidateId vote @ ''-'' @
     voterToken vote @ ''-'' @ timestamp vote"

definition hashVote :: "lib \<Rightarrow> 'a VoteData_scheme \<Rightarrow> string" where
  "hashVote L vote = hex_of_word (SHA256 L (voteString vote @ SECRET_KEY))"

definition verifyVoteIntegrity :: "lib \<Rightarrow> Vote \<Rightarrow> bool" where
  "verifyVoteIntegrity L vote =
     (let expectedHash = hashVote L
            \<lparr>electionId = electionId vote, positionId = positionId vote,
             candidateId = candidateId vote, voterToken = voterToken vote,
             timestamp = timestamp vote\<rparr>
      in expectedHash = cryptographicHash vote)"

definition generateSecureHash :: "lib \<Rightarrow> string \<Rightarrow> string" where
  "generateSecureHash L data = hex_of_word (SHA512 L (data @ SECRET_KEY))"

definition encryptSensitiveData :: "lib \<Rightarrow> 64 word \<Rightarrow> string \<Rightarrow> string" where
  "encryptSensitiveData L salt data = AES_encrypt L data ENCRYPTION_KEY salt"

text \<open>\<open>None\<close> is the exception \<^verbatim>\<open>bytes.toString(CryptoJS.enc.Utf8)\<close> can throw.\<close>

definition decryptSensitiveData :: "lib \<Rightarrow> string \<Rightarrow> string option" where
  "decryptSensitiveData L encryptedData = AES_decrypt_Utf8 L encryptedData ENCRYPTION_KEY"

text \<open>The fields of a vote in the order \<^verbatim>\<open>hashVote\<close> concatenates them.\<close>

definition vote_fields :: "'a VoteData_scheme \<Rightarrow> string list" where
  "vote_fields vote =
     [electionId vote, positionId vote, candidateId vote, voterToken vote, timestamp vote]"

text \<open>Two tuples differ in exactly one of the five fields.\<close>

definition differ_in_one_field :: "'a VoteData_scheme \<Rightarrow> 'b VoteData_scheme \<Rightarrow> bool" where
  "differ_in_one_field v v' =
     (length (filter (\<lambda>(a, b). a \<noteq> b) (zip (vote_fields v) (vote_fields v'))) = 1)"

section \<open>types/index.ts\<close>

text \<open>
  Field names are those of the interfaces; where two interfaces share a name the
  later one carries a prefix. An optional field is an \<open>option\<close>; an object used as a
  dictionary is an association list in property order.
\<close>

datatype Role = Admin | Voter

record User =
  user_id :: string
  email :: string
  user_name :: string
  role :: Role
  isVerified :: bool
  hasVoted :: "(string \<times> bool) list option"
  votingTokens :: "(string \<times> string) list option"
  registrationDate :: string
  lastLogin :: string
  password :: string

record Candidate =
  candidate_id :: string
  candidate_name :: string
  candidate_position :: string
  candidate_description :: string
  manifesto :: string
  photo :: "string option"

record Position =
  position_id :: string
  position_title :: string
  position_description :: string
  candidates :: "Candidate list"
  maxVotes :: int

text \<open>\<open>totalVotes\<close> is a JavaScript number holding an integer; it is an \<open>int\<close> here.\<close>

record Election =
  election_id :: string
  title :: string
  description :: string
  startDate :: string
  endDate :: string
  positions :: "Position list"
  isActive :: bool
  totalVotes :: int
  createdBy :: string
  createdAt :: string
  election_cryptographicHash :: string

record VotingSession =
  sessionId :: string
  session_voterToken :: string
  session_electionId :: string
  session_isActive :: bool
  expiresAt :: string
  session_ipAddress :: string
  userAgent :: string

datatype LogType =
  login | vote_cast | double_vote_attempt | invalid_access | admin_action
  | session_expired | suspicious_activity

datatype Severity = low | medium | high | critical

text \<open>
  \<^verbatim>\<open>Omit<SecurityLog, 'id' | 'timestamp'>\<close> is the argument of \<^verbatim>\<open>addSecurityLog\<close>;
  a \<^verbatim>\<open>SecurityLog\<close> extends it by the two fields.
\<close>

record LogEntry =
  log_type :: LogType
  message :: string
  userId :: "string option"
  log_electionId :: "string option"
  ipAddress :: string
  severity :: Severity
  metadata :: "json option"

record SecurityLog = LogEntry +
  log_id :: string
  log_timestamp :: string

text \<open>
  A JavaScript number is an IEEE 754 binary64 value. A finite one is kept as the
  rational it denotes; \<^verbatim>\<open>Infinity\<close> and \<^verbatim>\<open>NaN\<close> are values of their own.
\<close>

datatype number = Num rat | PosInfinity | NaN

text \<open>
  Every arithmetic operation on numbers ends by rounding the exact result to the
  nearest value with a significand of 53 bits, a tie going to the even significand.
  \<open>binary_exponent x\<close> is the exponent \<open>e\<close> with \<open>2\<^sup>e \<le> x < 2\<^sup>e\<^sup>+\<^sup>1\<close>, found from the bit
  lengths of numerator and denominator. The exponent is not bounded here: the operands
  below are array lengths, which are below \<open>2\<^sup>3\<^sup>2\<close>, and the factor 100, so every
  quotient and product is far inside the range of binary64.
\<close>

definition round_half_even :: "rat \<Rightarrow> int" where
  "round_half_even y =
     (let f = \<lfloor>y\<rfloor>; d = y - of_int f
      in if d < 1 / 2 then f else if 1 / 2 < d then f + 1 else if even f then f else f + 1)"

definition binary_exponent :: "rat \<Rightarrow> int" where
  "binary_exponent x =
     (case quotient_of x of (p, q) \<Rightarrow>
        (let e = bitlen p - bitlen q in if 2 powi e \<le> x then e else e - 1))"

definition round_double :: "rat \<Rightarrow> rat" where
  "round_double x =
     (if x = 0 then 0
      else (let ulp = 2 powi (binary_exponent \<bar>x\<bar> - 52)
            in sgn x * of_int (round_half_even (\<bar>x\<bar> / ulp)) * ulp))"

text \<open>
  The quotient \<open>a / b\<close> of two counts: the rounded quotient, \<^verbatim>\<open>Infinity\<close> for \<open>n / 0\<close>
  with \<open>n > 0\<close>, and \<^verbatim>\<open>NaN\<close> for \<open>0 / 0\<close>. Division never throws. \<open>times_100\<close> is
  \<open>x * 100\<close>.
\<close>

definition divide_counts :: "nat \<Rightarrow> nat \<Rightarrow> number" where
  "divide_counts a b =
     (if b = 0 then (if a = 0 then NaN else PosInfinity)
      else Num (round_double (of_nat a / of_nat b)))"

fun times_100 :: "number \<Rightarrow> number" where
  "times_100 (Num r) = Num (round_double (r * 100))"
| "times_100 PosInfinity = PosInfinity"
| "times_100 NaN = NaN"

record CandidateResult =
  result_candidateId :: string
  candidateName :: string
  voteCount :: nat
  percentage :: number

record PositionResult =
  result_positionId :: string
  positionTitle :: string
  result_candidates :: "CandidateResult list"
  position_totalVotes :: nat

record ElectionResults =
  result_electionId :: string
  result_positions :: "PositionResult list"
  totalParticipants :: nat
  turnoutPercentage :: number
  verificationHash :: string

section \<open>storage.ts: the encrypted blobs\<close>

text \<open>
  \<^verbatim>\<open>localStorage\<close> maps a key to a string. The private \<^verbatim>\<open>encrypt\<close> and \<^verbatim>\<open>decrypt\<close>
  of \<^verbatim>\<open>SecureStorage\<close> wrap the two crypto functions around JSON; \<^verbatim>\<open>decrypt\<close> catches
  every exception of either step and returns \<^verbatim>\<open>null\<close>.
\<close>

type_synonym localStorage = "string \<Rightarrow> string option"

definition encrypt :: "lib \<Rightarrow> 64 word \<Rightarrow> json \<Rightarrow> string" where
  "encrypt L salt data = encryptSensitiveData L salt (JSON_stringify L data)"

definition decrypt :: "lib \<Rightarrow> string \<Rightarrow> json" where
  "decrypt L encryptedData =
     (case decryptSensitiveData L encryptedData of
        None \<Rightarrow> JNull
      | Some plain \<Rightarrow> (case JSON_parse L plain of None \<Rightarrow> JNull | Some data \<Rightarrow> data))"

text \<open>
  The six collection getters are the same expression
  \<^verbatim>\<open>encrypted ? this.decrypt(encrypted) || [] : []\<close> on six keys. A \<^verbatim>\<open>null\<close> item and
  the empty string are both falsy.
\<close>

definition getCollection :: "lib \<Rightarrow> localStorage \<Rightarrow> string \<Rightarrow> json" where
  "getCollection L ls key =
     (case ls key of
        None \<Rightarrow> JArr []
      | Some encrypted \<Rightarrow>
          if encrypted = [] then JArr []
          else (let data = decrypt L encrypted in if truthy data then data else JArr []))"

definition stored_getUsers :: "lib \<Rightarrow> localStorage \<Rightarrow> json" where
  "stored_getUsers L ls = getCollection L ls ''voting_users''"

definition stored_getElections :: "lib \<Rightarrow> localStorage \<Rightarrow> json" where
  "stored_getElections L ls = getCollection L ls ''voting_elections''"

definition stored_getVotes :: "lib \<Rightarrow> localStorage \<Rightarrow> json" where
  "stored_getVotes L ls = getCollection L ls ''voting_votes''"

definition stored_getVotingSessions :: "lib \<Rightarrow> localStorage \<Rightarrow> json" where
  "stored_getVotingSessions L ls = getCollection L ls ''voting_sessions''"

definition stored_getSecurityLogs :: "lib \<Rightarrow> localStorage \<Rightarrow> json" where
  "stored_getSecurityLogs L ls = getCollection L ls ''voting_security_logs''"

definition stored_getElectionResults :: "lib \<Rightarrow> localStorage \<Rightarrow> json" where
  "stored_getElectionResults L ls = getCollection L ls ''voting_results''"

definition stored_getCurrentUser :: "lib \<Rightarrow> localStorage \<Rightarrow> json" where
  "stored_getCurrentUser L ls =
     (case ls ''voting_current_user'' of
        None \<Rightarrow> JNull
      | Some encrypted \<Rightarrow> if encrypted = [] then JNull else decrypt L encrypted)"

definition stored_save :: "lib \<Rightarrow> 64 word \<Rightarrow> string \<Rightarrow> json \<Rightarrow> localStorage \<Rightarrow> localStorage" where
  "stored_save L salt key data ls = ls(key \<mapsto> encrypt L salt data)"

text \<open>A blob on which \<^verbatim>\<open>decrypt\<close> takes its \<^verbatim>\<open>catch\<close> branch.\<close>

definition decrypt_fails :: "lib \<Rightarrow> string \<Rightarrow> bool" where
  "decrypt_fails L encryptedData =
     (case decryptSensitiveData L encryptedData of
        None \<Rightarrow> True
      | Some plain \<Rightarrow> JSON_parse L plain = None)"

section \<open>storage.ts: the collections\<close>

text \<open>
  The rest of the model works on the decoded collections: the state is what the
  seven getters return, and a \<^verbatim>\<open>save\<close> replaces one of them (lemma
  \<open>stored_save_get\<close> below is the reason). Writes to the store do not fail in this
  model: \<^verbatim>\<open>localStorage.setItem\<close> is taken to succeed.
\<close>

record store =
  voting_users :: "User list"
  voting_elections :: "Election list"
  voting_votes :: "Vote list"
  voting_sessions :: "VotingSession list"
  voting_security_logs :: "SecurityLog list"
  voting_results :: "ElectionResults list"
  voting_current_user :: "User option"

text \<open>
  Readings of the clock, the random source and the browser during one operation:
  \<open>Date_now\<close> is \<^verbatim>\<open>Date.now().toString()\<close>, \<open>Date_iso\<close> and \<open>Date_iso2\<close> the first and
  second \<^verbatim>\<open>new Date().toISOString()\<close>, \<open>log_now\<close> and \<open>log_iso\<close> the two readings inside
  \<^verbatim>\<open>addSecurityLog\<close>, \<open>expires_iso\<close> the instant thirty minutes ahead, \<open>random_token\<close>
  and \<open>random_session\<close> the results of \<^verbatim>\<open>generateVoterToken\<close> and \<^verbatim>\<open>generateSessionId\<close>,
  \<open>random_vote_id k\<close> the id string built for the \<open>k\<close>-th vote record, and
  \<open>navigator_userAgent\<close> the browser's user agent.
\<close>

record env =
  Date_now :: string
  Date_iso :: string
  Date_iso2 :: string
  log_now :: string
  log_iso :: string
  expires_iso :: string
  random_token :: string
  random_session :: string
  random_vote_id :: "nat \<Rightarrow> string"
  navigator_userAgent :: string

definition getUsers :: "store \<Rightarrow> User list" where
  "getUsers s = voting_users s"

definition saveUsers :: "User list \<Rightarrow> store \<Rightarrow> store" where
  "saveUsers users s = s\<lparr>voting_users := users\<rparr>"

definition getElections :: "store \<Rightarrow> Election list" where
  "getElections s = voting_elections s"

definition saveElections :: "Election list \<Rightarrow> store \<Rightarrow> store" where
  "saveElections elections s = s\<lparr>voting_elections := elections\<rparr>"

definition getElectionById :: "store \<Rightarrow> string \<Rightarrow> Election option" where
  "getElectionById s eid = find (\<lambda>election. election_id election = eid) (getElections s)"

definition getVotes :: "store \<Rightarrow> Vote list" where
  "getVotes s = voting_votes s"

definition saveVotes :: "Vote list \<Rightarrow> store \<Rightarrow> store" where
  "saveVotes votes s = s\<lparr>voting_votes := votes\<rparr>"

definition getVotesByElection :: "store \<Rightarrow> string \<Rightarrow> Vote list" where
  "getVotesByElection s eid = filter (\<lambda>vote. electionId vote = eid) (getVotes s)"

definition getVotingSessions :: "store \<Rightarrow> VotingSession list" where
  "getVotingSessions s = voting_sessions s"

definition saveVotingSessions :: "VotingSession list \<Rightarrow> store \<Rightarrow> store" where
  "saveVotingSessions sessions s = s\<lparr>voting_sessions := sessions\<rparr>"

definition getSecurityLogs :: "store \<Rightarrow> SecurityLog list" where
  "getSecurityLogs s = voting_security_logs s"

definition saveSecurityLogs :: "SecurityLog list \<Rightarrow> store \<Rightarrow> store" where
  "saveSecurityLogs logs s = s\<lparr>voting_security_logs := logs\<rparr>"

definition addSecurityLog :: "env \<Rightarrow> LogEntry \<Rightarrow> store \<Rightarrow> store" where
  "addSecurityLog E entry s =
     (let logs = getSecurityLogs s;
          newLog = \<lparr>log_type = log_type entry, message = message entry,
                    userId = userId entry, log_electionId = log_electionId entry,
                    ipAddress = ipAddress entry, severity = severity entry,
                    metadata = metadata entry,
                    log_id = log_now E, log_timestamp = log_iso E\<rparr>
      in saveSecurityLogs (logs @ [newLog]) s)"

definition getCurrentUser :: "store \<Rightarrow> User option" where
  "getCurrentUser s = voting_current_user s"

definition setCurrentUser :: "User option \<Rightarrow> store \<Rightarrow> store" where
  "setCurrentUser user s = s\<lparr>voting_current_user := user\<rparr>"

text \<open>\<^verbatim>\<open>user?.hasVoted?.[electionId] === true\<close>\<close>

definition hasVoted_flag :: "User \<Rightarrow> string \<Rightarrow> bool" where
  "hasVoted_flag user eid =
     (case hasVoted user of None \<Rightarrow> False | Some m \<Rightarrow> map_of m eid = Some True)"

definition hasUserVotedInElection :: "store \<Rightarrow> string \<Rightarrow> string \<Rightarrow> bool" where
  "hasUserVotedInElection s uid eid =
     (case find (\<lambda>u. user_id u = uid) (getUsers s) of
        None \<Rightarrow> False
      | Some user \<Rightarrow> hasVoted_flag user eid)"

definition adminUser :: "lib \<Rightarrow> env \<Rightarrow> User" where
  "adminUser L E =
     \<lparr>user_id = ''admin-'' @ Date_now E,
      email = ''admin@bnmit.in'',
      user_name = ''System Administrator'',
      role = Admin,
      isVerified = True,
      hasVoted = Some [],
      votingTokens = Some [],
      registrationDate = Date_iso E,
      lastLogin = Date_iso2 E,
      password = generateSecureHash L ''VoteBNMIT2024!Admin''\<rparr>"

definition initializeAdminAccount :: "lib \<Rightarrow> env \<Rightarrow> store \<Rightarrow> store" where
  "initializeAdminAccount L E s =
     (let users = getUsers s;
          adminExists = find (\<lambda>u. role u = Admin) users
      in case adminExists of
           Some _ \<Rightarrow> s
         | None \<Rightarrow> saveUsers (users @ [adminUser L E]) s)"

text \<open>The number of admin-role records of a users collection.\<close>

definition admin_count :: "store \<Rightarrow> nat" where
  "admin_count s = length (filter (\<lambda>u. role u = Admin) (getUsers s))"

section \<open>VotingInterface.tsx\<close>

text \<open>
  The component's state (its \<^verbatim>\<open>useState\<close> cells) is a record; the props \<^verbatim>\<open>election\<close>
  and \<^verbatim>\<open>user\<close> are arguments, and the callback a handler invokes is part of its result
  (\<open>OnComplete\<close> is invoked by a timer two seconds after the completion screen shows).
  \<open>votes\<close> is the selection object, position id to candidate id. Its entries are
  kept in insertion order; an engine lists integer-like keys in ascending order
  instead, which changes only the order in which the vote records are appended.
\<close>

record VotingInterface =
  currentStep :: nat
  votes :: "(string \<times> string) list"
  isSubmitting :: bool
  votingSession :: "VotingSession option"
  errors :: "string list"
  showConfirmation :: bool
  timeRemaining :: nat
  isCompleted :: bool

datatype callback = NoCallback | OnCancel | OnComplete

definition VotingInterface_initial :: VotingInterface where
  "VotingInterface_initial =
     \<lparr>currentStep = 0, votes = [], isSubmitting = False, votingSession = None,
      errors = [], showConfirmation = False, timeRemaining = 30 * 60,
      isCompleted = False\<rparr>"

text \<open>\<^verbatim>\<open>{ ...obj, [key]: value }\<close> on an optional dictionary.\<close>

definition spread_set :: "('k \<times> 'v) list option \<Rightarrow> 'k \<Rightarrow> 'v \<Rightarrow> ('k \<times> 'v) list" where
  "spread_set obj key val =
     AList.update key val (case obj of None \<Rightarrow> [] | Some m \<Rightarrow> m)"

definition createVotingSession ::
  "env \<Rightarrow> Election \<Rightarrow> User \<Rightarrow> store \<Rightarrow> VotingInterface \<Rightarrow> store \<times> VotingInterface" where
  "createVotingSession E election user s c =
     (let token = random_token E;
          session = \<lparr>sessionId = random_session E,
                     session_voterToken = token,
                     session_electionId = election_id election,
                     session_isActive = True,
                     expiresAt = expires_iso E,
                     session_ipAddress = ''localhost'',
                     userAgent = navigator_userAgent E\<rparr>;
          s1 = saveVotingSessions (getVotingSessions s @ [session]) s;
          c1 = c\<lparr>votingSession := Some session\<rparr>;
          users = getUsers s1;
          updatedUsers =
            map (\<lambda>u. if user_id u = user_id user
                     then u\<lparr>votingTokens :=
                            Some (spread_set (votingTokens u) (election_id election) token)\<rparr>
                     else u) users
      in (saveUsers updatedUsers s1, c1))"

definition initialVotes :: "Election \<Rightarrow> (string \<times> string) list" where
  "initialVotes election =
     foldl (\<lambda>m position. AList.update (position_id position) [] m) [] (positions election)"

text \<open>
  The effect run when the component mounts, up to the start of the countdown timer.
\<close>

definition VotingInterface_mount ::
  "env \<Rightarrow> Election \<Rightarrow> User \<Rightarrow> store \<Rightarrow> VotingInterface
   \<Rightarrow> store \<times> VotingInterface \<times> callback" where
  "VotingInterface_mount E election user s c =
     (if hasUserVotedInElection s (user_id user) (election_id election)
      then (addSecurityLog E
              \<lparr>log_type = double_vote_attempt,
               message = ''User attempted to vote again in election: '' @ title election,
               userId = Some (user_id user),
               log_electionId = Some (election_id election),
               ipAddress = ''localhost'',
               severity = high,
               metadata = None\<rparr> s,
            c, OnCancel)
      else (let (s1, c1) = createVotingSession E election user s c
            in (s1, c1\<lparr>votes := initialVotes election\<rparr>, NoCallback)))"

definition handleVoteChange :: "string \<Rightarrow> string \<Rightarrow> VotingInterface \<Rightarrow> VotingInterface" where
  "handleVoteChange pid cid c = c\<lparr>votes := AList.update pid cid (votes c)\<rparr>"

text \<open>
  \<^verbatim>\<open>validateVotes\<close> returns the state with the error list set, and whether the list is
  empty. \<^verbatim>\<open>!positionVote\<close> holds for a missing key and for the empty string.
\<close>

definition validateVotes :: "Election \<Rightarrow> VotingInterface \<Rightarrow> VotingInterface \<times> bool" where
  "validateVotes election c =
     (let newErrors =
            concat (map (\<lambda>position.
                           if (case map_of (votes c) (position_id position) of
                                 None \<Rightarrow> True
                               | Some positionVote \<Rightarrow> positionVote = [])
                           then [''Please select a candidate for '' @ position_title position]
                           else [])
                        (positions election))
      in (c\<lparr>errors := newErrors\<rparr>, newErrors = []))"

text \<open>\<^verbatim>\<open>currentStep < election.positions.length - 1\<close> is a comparison of numbers.\<close>

definition handleNext :: "Election \<Rightarrow> VotingInterface \<Rightarrow> VotingInterface" where
  "handleNext election c =
     (if int (currentStep c) < int (length (positions election)) - 1
      then c\<lparr>currentStep := currentStep c + 1\<rparr>
      else (case validateVotes election c of
              (c', valid) \<Rightarrow> if valid then c'\<lparr>showConfirmation := True\<rparr> else c'))"

definition handlePrevious :: "VotingInterface \<Rightarrow> VotingInterface" where
  "handlePrevious c = (if currentStep c > 0 then c\<lparr>currentStep := currentStep c - 1\<rparr> else c)"

text \<open>The entries of the selection object with a truthy (non-empty) candidate id.\<close>

definition selected :: "(string \<times> string) list \<Rightarrow> (string \<times> string) list" where
  "selected sel = filter (\<lambda>(pid, cid). cid \<noteq> []) sel"

definition newVote ::
  "lib \<Rightarrow> env \<Rightarrow> Election \<Rightarrow> VotingSession \<Rightarrow> string \<Rightarrow> nat \<times> string \<times> string \<Rightarrow> Vote" where
  "newVote L E election session ts entry =
     (case entry of (k, pid, cid) \<Rightarrow>
        (let voteData = \<lparr>electionId = election_id election, positionId = pid,
                         candidateId = cid, voterToken = session_voterToken session,
                         timestamp = ts\<rparr>
         in \<lparr>electionId = electionId voteData, positionId = positionId voteData,
             candidateId = candidateId voteData, voterToken = voterToken voteData,
             timestamp = timestamp voteData,
             vote_id = random_vote_id E k,
             cryptographicHash = hashVote L voteData,
             verified = True\<rparr>))"

definition newVotes ::
  "lib \<Rightarrow> env \<Rightarrow> Election \<Rightarrow> VotingSession \<Rightarrow> string \<Rightarrow> (string \<times> string) list \<Rightarrow> Vote list" where
  "newVotes L E election session ts sel =
     map (newVote L E election session ts) (enumerate 0 (selected sel))"

text \<open>
  \<^verbatim>\<open>submitVotes\<close>. The calls inside its \<^verbatim>\<open>try\<close> that can throw are the writes to
  the store; as those do not fail here, the \<^verbatim>\<open>catch\<close> branch is never taken and has
  no counterpart. The three results are: no session (an alert, nothing changes), the
  vote already recorded (a log entry of severity \<open>critical\<close> and \<^verbatim>\<open>onCancel\<close>), and
  the submission itself.
\<close>

definition submitVotes ::
  "lib \<Rightarrow> env \<Rightarrow> Election \<Rightarrow> User \<Rightarrow> store \<Rightarrow> VotingInterface
   \<Rightarrow> store \<times> VotingInterface \<times> callback" where
  "submitVotes L E election user s c =
     (case votingSession c of
        None \<Rightarrow> (s, c, NoCallback)
      | Some session \<Rightarrow>
          if hasUserVotedInElection s (user_id user) (election_id election)
          then (addSecurityLog E
                  \<lparr>log_type = double_vote_attempt,
                   message = ''Double vote attempt blocked during submission for election: ''
                             @ title election,
                   userId = Some (user_id user),
                   log_electionId = Some (election_id election),
                   ipAddress = ''localhost'',
                   severity = critical,
                   metadata = None\<rparr> s,
                c, OnCancel)
          else
            (let allVotes = getVotes s;
                 ts = Date_iso E;
                 new = newVotes L E election session ts (votes c);
                 s1 = saveVotes (allVotes @ new) s;
                 users = getUsers s1;
                 updatedUsers =
                   map (\<lambda>u. if user_id u = user_id user
                            then u\<lparr>hasVoted :=
                                   Some (spread_set (hasVoted u) (election_id election) True)\<rparr>
                            else u) users;
                 s2 = saveUsers updatedUsers s1;
                 s3 = (case find (\<lambda>u. user_id u = user_id user) updatedUsers of
                         None \<Rightarrow> s2
                       | Some updatedUser \<Rightarrow> setCurrentUser (Some updatedUser) s2);
                 elections = getElections s3;
                 updatedElections =
                   map (\<lambda>e. if election_id e = election_id election
                            then e\<lparr>totalVotes := totalVotes e + int (length new)\<rparr>
                            else e) elections;
                 s4 = saveElections updatedElections s3;
                 sessions = getVotingSessions s4;
                 updatedSessions =
                   map (\<lambda>x. if sessionId x = sessionId session
                            then x\<lparr>session_isActive := False\<rparr>
                            else x) sessions;
                 s5 = saveVotingSessions updatedSessions s4;
                 s6 = addSecurityLog E
                        \<lparr>log_type = vote_cast,
                         message = ''Vote successfully cast in election: '' @ title election,
                         userId = Some (user_id user),
                         log_electionId = Some (election_id election),
                         ipAddress = ''localhost'',
                         severity = low,
                         metadata = None\<rparr> s5
             in (s6, c\<lparr>isSubmitting := False, isCompleted := True\<rparr>, OnComplete)))"

section \<open>ElectionManagement.tsx\<close>

text \<open>
  The component keeps its own copy \<open>elections\<close> of the collection, set by
  \<^verbatim>\<open>loadElections\<close> when it mounts and after each deletion. \<^verbatim>\<open>deleteElection\<close> filters
  that copy, not a fresh read; \<open>confirmed\<close> is the answer to the \<^verbatim>\<open>confirm\<close> dialog. The
  result is the store and the component's copy after the final \<^verbatim>\<open>loadElections\<close>.
\<close>

definition loadElections :: "store \<Rightarrow> Election list" where
  "loadElections s = getElections s"

definition deleteElection ::
  "env \<Rightarrow> bool \<Rightarrow> Election list \<Rightarrow> string \<Rightarrow> store \<Rightarrow> store \<times> Election list" where
  "deleteElection E confirmed elections eid s =
     (if confirmed
      then
        (let updatedElections = filter (\<lambda>e. election_id e \<noteq> eid) elections;
             s1 = saveElections updatedElections s;
             allVotes = getVotes s1;
             updatedVotes = filter (\<lambda>v. electionId v \<noteq> eid) allVotes;
             s2 = saveVotes updatedVotes s1;
             s3 = addSecurityLog E
                    \<lparr>log_type = admin_action,
                     message = ''Election deleted: '' @
                       (case find (\<lambda>e. election_id e = eid) elections of
                          None \<Rightarrow> ''undefined''
                        | Some e \<Rightarrow> title e),
                     userId = map_option user_id (getCurrentUser s2),
                     log_electionId = Some eid,
                     ipAddress = ''localhost'',
                     severity = medium,
                     metadata = None\<rparr> s2
         in (s3, loadElections s3))
      else (s, elections))"

text \<open>
  The component's life: it mounts, loading its copy, and then handles any number of
  clicks on a delete button, each with the dialog's answer. While it is mounted nothing
  else in the page writes the elections collection.
\<close>

definition ElectionManagement_mount :: "store \<Rightarrow> Election list" where
  "ElectionManagement_mount s = loadElections s"

definition ElectionManagement_run ::
  "(env \<times> bool \<times> string) list \<Rightarrow> store \<Rightarrow> store \<times> Election list" where
  "ElectionManagement_run clicks s =
     foldl (\<lambda>(s, elections) (E, confirmed, eid). deleteElection E confirmed elections eid s)
       (s, ElectionManagement_mount s) clicks"

section \<open>ResultsViewer.tsx\<close>

text \<open>
  \<^verbatim>\<open>Array.prototype.sort(compareFn)\<close> is a stable sort: an element moves in front of
  another only when the comparator says it must. It is modelled by insertion from the
  right, which keeps elements that compare equal in their original order.
\<close>

fun insert_by :: "('a \<Rightarrow> 'a \<Rightarrow> int) \<Rightarrow> 'a \<Rightarrow> 'a list \<Rightarrow> 'a list" where
  "insert_by cmp x [] = [x]"
| "insert_by cmp x (y # ys) =
     (if cmp x y \<le> 0 then x # y # ys else y # insert_by cmp x ys)"

definition Array_sort :: "('a \<Rightarrow> 'a \<Rightarrow> int) \<Rightarrow> 'a list \<Rightarrow> 'a list" where
  "Array_sort cmp xs = foldr (insert_by cmp) xs []"

text \<open>The comparator \<^verbatim>\<open>(a, b) => b.voteCount - a.voteCount\<close>.\<close>

definition by_voteCount_desc :: "CandidateResult \<Rightarrow> CandidateResult \<Rightarrow> int" where
  "by_voteCount_desc a b = int (voteCount b) - int (voteCount a)"

definition candidateResult :: "Vote list \<Rightarrow> Candidate \<Rightarrow> CandidateResult" where
  "candidateResult positionVotes candidate =
     (let totalPositionVotes = length positionVotes;
          candidateVotes =
            length (filter (\<lambda>v. candidateId v = candidate_id candidate) positionVotes)
      in \<lparr>result_candidateId = candidate_id candidate,
          candidateName = candidate_name candidate,
          voteCount = candidateVotes,
          percentage =
            (if totalPositionVotes > 0
             then times_100 (divide_counts candidateVotes totalPositionVotes)
             else Num 0)\<rparr>)"

definition positionResult :: "Vote list \<Rightarrow> Position \<Rightarrow> PositionResult" where
  "positionResult electionVotes position =
     (let positionVotes = filter (\<lambda>v. positionId v = position_id position) electionVotes;
          totalPositionVotes = length positionVotes;
          candidateResults = map (candidateResult positionVotes) (candidates position)
      in \<lparr>result_positionId = position_id position,
          positionTitle = position_title position,
          result_candidates = Array_sort by_voteCount_desc candidateResults,
          position_totalVotes = totalPositionVotes\<rparr>)"

text \<open>The results object as the JSON tree \<^verbatim>\<open>JSON.stringify\<close> walks.\<close>

fun json_of_number :: "number \<Rightarrow> json" where
  "json_of_number (Num r) = JNum r"
| "json_of_number PosInfinity = JNull"
| "json_of_number NaN = JNull"

definition json_of_CandidateResult :: "CandidateResult \<Rightarrow> json" where
  "json_of_CandidateResult r =
     JObj [(''candidateId'', JStr (result_candidateId r)),
           (''candidateName'', JStr (candidateName r)),
           (''voteCount'', JNum (of_nat (voteCount r))),
           (''percentage'', json_of_number (percentage r))]"

definition json_of_PositionResult :: "PositionResult \<Rightarrow> json" where
  "json_of_PositionResult r =
     JObj [(''positionId'', JStr (result_positionId r)),
           (''positionTitle'', JStr (positionTitle r)),
           (''candidates'', JArr (map json_of_CandidateResult (result_candidates r))),
           (''totalVotes'', JNum (of_nat (position_totalVotes r)))]"

definition json_of_ElectionResults :: "ElectionResults \<Rightarrow> json" where
  "json_of_ElectionResults r =
     JObj [(''electionId'', JStr (result_electionId r)),
           (''positions'', JArr (map json_of_PositionResult (result_positions r))),
           (''totalParticipants'', JNum (of_nat (totalParticipants r))),
           (''turnoutPercentage'', json_of_number (turnoutPercentage r)),
           (''verificationHash'', JStr (verificationHash r))]"

definition generateElectionVerificationHash :: "lib \<Rightarrow> ElectionResults \<Rightarrow> string" where
  "generateElectionVerificationHash L results =
     (let resultsString = JSON_stringify L (json_of_ElectionResults results)
      in hex_of_word (SHA256 L (resultsString @ SECRET_KEY)))"

definition calculateResults :: "lib \<Rightarrow> Election \<Rightarrow> store \<Rightarrow> ElectionResults" where
  "calculateResults L election s =
     (let electionVotes = getVotesByElection s (election_id election);
          uniqueVoters = length (remdups (map voterToken electionVotes));
          totalRegisteredVoters = length (filter (\<lambda>u. role u = Voter) (getUsers s));
          positionResults = map (positionResult electionVotes) (positions election);
          results =
            \<lparr>result_electionId = election_id election,
             result_positions = positionResults,
             totalParticipants = uniqueVoters,
             turnoutPercentage =
               (if totalRegisteredVoters > 0
                then times_100 (divide_counts uniqueVoters totalRegisteredVoters)
                else Num 0),
             verificationHash = []\<rparr>
      in results\<lparr>verificationHash := generateElectionVerificationHash L results\<rparr>)"

text \<open>
  The results view tags a row as winner with
  \<^verbatim>\<open>index === 0 && candidate.voteCount > 0\<close>; \<open>winner_flags\<close> is that flag for each
  row of a position, in display order.
\<close>

definition isWinner :: "nat \<Rightarrow> CandidateResult \<Rightarrow> bool" where
  "isWinner index candidate = (index = 0 \<and> voteCount candidate > 0)"

definition winner_flags :: "PositionResult \<Rightarrow> bool list" where
  "winner_flags position =
     map (\<lambda>(index, candidate). isWinner index candidate)
         (enumerate 0 (result_candidates position))"

section \<open>Contracts of the external primitives\<close>

text \<open>
  What the application relies on from CryptoJS and from JSON. \<open>AES_inverts\<close>: decrypting
  with the passphrase that encrypted returns the plaintext, whatever the salt.
  \<open>JSON_serializable\<close>: the value survives \<^verbatim>\<open>JSON.parse(JSON.stringify(x))\<close>.
\<close>

definition AES_inverts :: "lib \<Rightarrow> bool" where
  "AES_inverts L =
     (\<forall>data key salt. AES_decrypt_Utf8 L (AES_encrypt L data key salt) key = Some data)"

definition JSON_serializable :: "lib \<Rightarrow> json \<Rightarrow> bool" where
  "JSON_serializable L x = (JSON_parse L (JSON_stringify L x) = Some x)"


section \<open>Example data\<close>



definition example_voter :: User where
  "example_voter =
     \<lparr>user_id = ''1700000000001'', email = ''alice@bnmit.in'', user_name = ''Alice'',
      role = Voter, isVerified = True, hasVoted = Some [], votingTokens = Some [],
      registrationDate = ''2024-01-01T00:00:00.000Z'',
      lastLogin = ''2024-01-01T00:00:00.000Z'', password = ''5f4dcc3b''\<rparr>"

definition example_candidate :: "string \<Rightarrow> string \<Rightarrow> Candidate" where
  "example_candidate cid nm =
     \<lparr>candidate_id = cid, candidate_name = nm, candidate_position = ''President'',
      candidate_description = [], manifesto = [], photo = None\<rparr>"

definition president :: Position where
  "president =
     \<lparr>position_id = ''p1'', position_title = ''President'', position_description = [],
      candidates = [example_candidate ''cB'' ''B'', example_candidate ''cC'' ''C'',
                    example_candidate ''cA'' ''A''],
      maxVotes = 1\<rparr>"

definition secretary :: Position where
  "secretary =
     \<lparr>position_id = ''p2'', position_title = ''Secretary'', position_description = [],
      candidates = [example_candidate ''cD'' ''D'', example_candidate ''cE'' ''E''],
      maxVotes = 1\<rparr>"

definition treasurer :: Position where
  "treasurer =
     \<lparr>position_id = ''p3'', position_title = ''Treasurer'', position_description = [],
      candidates = [example_candidate ''cF'' ''F'', example_candidate ''cG'' ''G''],
      maxVotes = 1\<rparr>"

definition example_election :: Election where
  "example_election =
     \<lparr>election_id = ''e1'', title = ''Council'', description = [],
      startDate = ''2024-03-01T00:00:00.000Z'', endDate = ''2024-03-02T00:00:00.000Z'',
      positions = [president, secretary, treasurer], isActive = True, totalVotes = 0,
      createdBy = ''admin-1'', createdAt = ''2024-02-01T00:00:00.000Z'',
      election_cryptographicHash = []\<rparr>"

definition other_election :: Election where
  "other_election =
     \<lparr>election_id = ''e2'', title = ''Club'', description = [],
      startDate = ''2024-03-01T00:00:00.000Z'', endDate = ''2024-03-02T00:00:00.000Z'',
      positions = [], isActive = True, totalVotes = 1,
      createdBy = ''admin-1'', createdAt = ''2024-02-01T00:00:00.000Z'',
      election_cryptographicHash = []\<rparr>"

definition example_store :: store where
  "example_store =
     \<lparr>voting_users = [example_voter],
      voting_elections = [example_election, other_election],
      voting_votes = [], voting_sessions = [], voting_security_logs = [],
      voting_results = [], voting_current_user = Some example_voter\<rparr>"

definition example_env :: env where
  "example_env =
     \<lparr>Date_now = ''1709287200000'', Date_iso = ''2024-03-01T10:00:00.000Z'',
      Date_iso2 = ''2024-03-01T10:00:00.001Z'', log_now = ''1709287200002'',
      log_iso = ''2024-03-01T10:00:00.002Z'', expires_iso = ''2024-03-01T10:30:00.000Z'',
      random_token = ''a1b2'', random_session = ''c3d4'',
      random_vote_id = (\<lambda>k. ''1709287200000'' @ replicate (Suc k) CHR ''x''),
      navigator_userAgent = ''Mozilla/5.0''\<rparr>"

text \<open>
  A voter opens the ballot, picks B and then A for president, D for secretary and F
  for treasurer, stepping through the three positions, and submits from the
  confirmation screen.
\<close>

definition example_session :: VotingSession where
  "example_session =
     \<lparr>sessionId = ''c3d4'', session_voterToken = ''a1b2'', session_electionId = ''e1'',
      session_isActive = True, expiresAt = ''2024-03-01T10:30:00.000Z'',
      session_ipAddress = ''localhost'', userAgent = ''Mozilla/5.0''\<rparr>"

definition example_mounted :: "store \<times> VotingInterface \<times> callback" where
  "example_mounted =
     VotingInterface_mount example_env example_election example_voter example_store
       VotingInterface_initial"

definition example_clicks :: "(VotingInterface \<Rightarrow> VotingInterface) list" where
  "example_clicks =
     [handleVoteChange ''p1'' ''cB'', handleVoteChange ''p1'' ''cA'',
      handleNext example_election,
      handleVoteChange ''p2'' ''cD'', handleNext example_election,
      handleVoteChange ''p3'' ''cF'', handleNext example_election]"

definition example_ballot :: VotingInterface where
  "example_ballot = foldl (\<lambda>c click. click c) (fst (snd example_mounted)) example_clicks"

definition example_submitted :: "lib \<Rightarrow> store \<times> VotingInterface \<times> callback" where
  "example_submitted L =
     submitVotes L example_env example_election example_voter (fst example_mounted)
       example_ballot"

text \<open>
  A component state of the same voter with the secretary left open. The confirmation
  screen is not shown for it; \<^verbatim>\<open>submitVotes\<close> skips the empty entry.
\<close>

definition partial_ballot :: VotingInterface where
  "partial_ballot =
     foldl (\<lambda>c click. click c) (fst (snd example_mounted))
       [handleVoteChange ''p1'' ''cA'', handleVoteChange ''p3'' ''cF'']"

definition partial_submitted :: "lib \<Rightarrow> store \<times> VotingInterface \<times> callback" where
  "partial_submitted L =
     submitVotes L example_env example_election example_voter (fst example_mounted)
       partial_ballot"

text \<open>
  The same flow for the same logged-in voter when the users collection reads as empty
  (the \<^verbatim>\<open>voting_users\<close> entry was removed, or does not decrypt).
\<close>

definition unregistered_store :: store where
  "unregistered_store = example_store\<lparr>voting_users := []\<rparr>"

definition unregistered_mounted :: "store \<times> VotingInterface \<times> callback" where
  "unregistered_mounted =
     VotingInterface_mount example_env example_election example_voter unregistered_store
       VotingInterface_initial"

definition unregistered_ballot :: VotingInterface where
  "unregistered_ballot =
     foldl (\<lambda>c click. click c) (fst (snd unregistered_mounted)) example_clicks"

definition unregistered_submitted :: "lib \<Rightarrow> store \<times> VotingInterface \<times> callback" where
  "unregistered_submitted L =
     submitVotes L example_env example_election example_voter (fst unregistered_mounted)
       unregistered_ballot"

text \<open>The same voter with the has-voted flag already set for the election.\<close>

definition voted_store :: store where
  "voted_store =
     example_store\<lparr>voting_users := [example_voter\<lparr>hasVoted := Some [(''e1'', True)]\<rparr>]\<rparr>"

text \<open>
  Four votes for president (A three times, B once), none for secretary, one for
  treasurer, and one vote of another election.
\<close>

definition example_vote :: "string \<Rightarrow> string \<Rightarrow> string \<Rightarrow> string \<Rightarrow> Vote" where
  "example_vote eid pid cid token =
     \<lparr>electionId = eid, positionId = pid, candidateId = cid, voterToken = token,
      timestamp = ''2024-03-01T10:00:00.000Z'', vote_id = token @ pid,
      cryptographicHash = [], verified = True\<rparr>"

definition tally_store :: store where
  "tally_store =
     example_store
       \<lparr>voting_votes :=
          [example_vote ''e1'' ''p1'' ''cA'' ''t1'', example_vote ''e1'' ''p1'' ''cB'' ''t2'',
           example_vote ''e2'' ''q1'' ''cZ'' ''t9'', example_vote ''e1'' ''p1'' ''cA'' ''t3'',
           example_vote ''e1'' ''p3'' ''cF'' ''t1'', example_vote ''e1'' ''p1'' ''cA'' ''t4'']\<rparr>"

definition example_results :: "lib \<Rightarrow> ElectionResults" where
  "example_results L = calculateResults L example_election tally_store"

text \<open>
  The tally election with a fourth position, whose three candidates have one vote
  each, cast in another order than the candidates are listed.
\<close>

definition auditor :: Position where
  "auditor =
     \<lparr>position_id = ''p4'', position_title = ''Auditor'', position_description = [],
      candidates = [example_candidate ''cH'' ''H'', example_candidate ''cI'' ''I'',
                    example_candidate ''cJ'' ''J''],
      maxVotes = 1\<rparr>"

definition tally_election :: Election where
  "tally_election = example_election\<lparr>positions := [president, secretary, treasurer, auditor]\<rparr>"

definition full_tally_store :: store where
  "full_tally_store =
     tally_store
       \<lparr>voting_votes :=
          voting_votes tally_store @
          [example_vote ''e1'' ''p4'' ''cI'' ''t1'', example_vote ''e1'' ''p4'' ''cJ'' ''t2'',
           example_vote ''e1'' ''p4'' ''cH'' ''t3'']\<rparr>"

definition tally_results :: "lib \<Rightarrow> ElectionResults" where
  "tally_results L = calculateResults L tally_election full_tally_store"

text \<open>The tally store with the users collection emptied.\<close>

definition no_voters_store :: store where
  "no_voters_store = tally_store\<lparr>voting_users := []\<rparr>"

text \<open>
  A small instance of the external primitives, for evaluating the storage functions:
  the cipher prefixes the passphrase, and the JSON codec knows three values.
\<close>

definition toy_stringify :: "json \<Rightarrow> string" where
  "toy_stringify x = (case x of JNull \<Rightarrow> ''null'' | JArr [] \<Rightarrow> ''[]'' | _ \<Rightarrow> ''{}'')"

definition toy_parse :: "string \<Rightarrow> json option" where
  "toy_parse s =
     (if s = ''null'' then Some JNull
      else if s = ''[]'' then Some (JArr [])
      else if s = ''{}'' then Some (JObj [])
      else None)"

definition toy_lib :: lib where
  "toy_lib =
     \<lparr>SHA256 = (\<lambda>s. of_nat (length s)),
      SHA512 = (\<lambda>s. of_nat (length s)),
      AES_encrypt = (\<lambda>data key salt. key @ data),
      AES_decrypt_Utf8 =
        (\<lambda>c key. if take (length key) c = key then Some (drop (length key) c) else None),
      JSON_stringify = toy_stringify,
      JSON_parse = toy_parse\<rparr>"


definition corrupt_storage :: localStorage where
  "corrupt_storage = (\<lambda>key. Some ''not a ciphertext'')"

named_theorems store_defs \<open>getters and setters of the decoded store\<close>

declare getUsers_def [store_defs] saveUsers_def [store_defs] getElections_def [store_defs]
  saveElections_def [store_defs] getVotes_def [store_defs] saveVotes_def [store_defs]
  getVotingSessions_def [store_defs] saveVotingSessions_def [store_defs]
  getSecurityLogs_def [store_defs] saveSecurityLogs_def [store_defs]
  addSecurityLog_def [store_defs] getCurrentUser_def [store_defs] setCurrentUser_def [store_defs]

section \<open>Hexadecimal encoding\<close>





lemma length_hex_of_word: "length (hex_of_word (w :: 'a::len word)) = LENGTH('a) div 4"
  by (simp add: hex_of_word_def)

section \<open>Vote hashing\<close>



text \<open>
  The fields are joined by \<^verbatim>\<open>-\<close> and may contain it, so two tuples that differ in two
  fields can give the same string and then the same hash, whatever the digest.
\<close>

lemma hashVote_separator_collision:
  "hashVote L \<lparr>electionId = ''a-b'', positionId = ''c'', candidateId = ''x'',
               voterToken = ''t'', timestamp = ''0''\<rparr> =
   hashVote L \<lparr>electionId = ''a'', positionId = ''b-c'', candidateId = ''x'',
               voterToken = ''t'', timestamp = ''0''\<rparr>"
  by (simp add: hashVote_def voteString_def)

lemma finite_range_hashVote: "finite (range (hashVote L :: VoteData \<Rightarrow> string))"
proof -
  have "range (hashVote L :: VoteData \<Rightarrow> string) \<subseteq> range (hex_of_word :: 256 word \<Rightarrow> string)"
    unfolding hashVote_def by blast
  then show ?thesis by (rule finite_subset) simp
qed

text \<open>
  No digest of 256 bits separates all tuples that differ in one field: the hash takes
  finitely many values while one field alone (the timestamp, say) ranges over
  infinitely many strings. Freedom from collisions is therefore a property of a digest
  on a set of strings, not on all of them.
\<close>

lemma hashVote_not_injective:
  "\<not> (\<exists>L. \<forall>(v::VoteData) (v'::VoteData). differ_in_one_field v v' \<longrightarrow> hashVote L v \<noteq> hashVote L v')"
proof
  assume "\<exists>L. \<forall>(v::VoteData) (v'::VoteData). differ_in_one_field v v' \<longrightarrow> hashVote L v \<noteq> hashVote L v'"
  then obtain L where sep:
    "\<And>(v::VoteData) (v'::VoteData). differ_in_one_field v v' \<Longrightarrow> hashVote L v \<noteq> hashVote L v'"
    by blast
  define tuple :: "string \<Rightarrow> VoteData" where
    "tuple ts = \<lparr>electionId = [], positionId = [], candidateId = [], voterToken = [],
                 timestamp = ts\<rparr>" for ts
  have "inj (\<lambda>ts. hashVote L (tuple ts))"
  proof (rule injI)
    fix a b
    assume same: "hashVote L (tuple a) = hashVote L (tuple b)"
    show "a = b"
    proof (rule ccontr)
      assume "a \<noteq> b"
      then have "differ_in_one_field (tuple a) (tuple b)"
        by (simp add: differ_in_one_field_def vote_fields_def tuple_def)
      from sep[OF this] same show False by simp
    qed
  qed
  moreover have "finite (range (\<lambda>ts. hashVote L (tuple ts)))"
    by (rule finite_subset[OF _ finite_range_hashVote[of L]]) blast
  ultimately have "finite (UNIV :: string set)"
    by (rule finite_imageD[rotated])
  then show False by (simp add: infinite_UNIV_listI)
qed



section \<open>Encrypted storage\<close>

lemma decryptSensitiveData_encrypt:
  "AES_inverts L \<Longrightarrow> decryptSensitiveData L (encryptSensitiveData L salt data) = Some data"
  by (simp add: AES_inverts_def decryptSensitiveData_def encryptSensitiveData_def)

text \<open>
  C5. Decrypting what was encrypted returns the input: for the two string functions on
  every string, and for the wrappers of the storage class on every JSON-serializable
  value. Both hold for every cipher that inverts under one passphrase; the two
  functions pass the same constant \<open>ENCRYPTION_KEY\<close>.
\<close>

theorem encrypt_decrypt_roundtrip:
  assumes "AES_inverts L"
  shows "decryptSensitiveData L (encryptSensitiveData L salt data) = Some data \<and>
         (JSON_serializable L x \<longrightarrow> decrypt L (encrypt L salt x) = x)"
  using assms
  by (simp add: decryptSensitiveData_encrypt decrypt_def encrypt_def JSON_serializable_def)

lemma AES_inverts_toy: "AES_inverts toy_lib"
  by (simp add: AES_inverts_def toy_lib_def)

theorem encrypt_decrypt_roundtrip_witness:
  "AES_inverts toy_lib \<and> JSON_serializable toy_lib (JArr []) \<and>
   decryptSensitiveData toy_lib (encryptSensitiveData toy_lib 7 ''[1,2]'') =
     Some ''[1,2]'' \<and>
   decrypt toy_lib (encrypt toy_lib 7 (JArr [])) = JArr []"
proof -
  have ser: "JSON_serializable toy_lib (JArr [])"
    by (simp add: JSON_serializable_def toy_lib_def toy_stringify_def toy_parse_def)
  from encrypt_decrypt_roundtrip [OF AES_inverts_toy, of 7 "''[1,2]''" "JArr []"] ser
  show ?thesis by (simp add: AES_inverts_toy)
qed

lemma decrypt_fails_JNull: "decrypt_fails L blob \<Longrightarrow> decrypt L blob = JNull"
  by (simp add: decrypt_fails_def decrypt_def split: option.splits)

lemma getCollection_fail_soft:
  "decrypt_fails L blob \<Longrightarrow> ls key = Some blob \<Longrightarrow> getCollection L ls key = JArr []"
  by (simp add: getCollection_def decrypt_fails_JNull)

text \<open>
  C6. A blob whose decryption or deserialization fails reads as no data: \<^verbatim>\<open>decrypt\<close>
  returns \<^verbatim>\<open>null\<close>, each of the six collection getters returns the empty array and
  \<^verbatim>\<open>getCurrentUser\<close> returns \<^verbatim>\<open>null\<close>. The getters have no error result: the only
  two steps that can throw are inside the \<^verbatim>\<open>try\<close> of \<^verbatim>\<open>decrypt\<close>.
\<close>

theorem storage_reads_fail_soft:
  assumes "decrypt_fails L blob"
  shows "decrypt L blob = JNull \<and>
         (ls ''voting_users'' = Some blob \<longrightarrow> stored_getUsers L ls = JArr []) \<and>
         (ls ''voting_elections'' = Some blob \<longrightarrow> stored_getElections L ls = JArr []) \<and>
         (ls ''voting_votes'' = Some blob \<longrightarrow> stored_getVotes L ls = JArr []) \<and>
         (ls ''voting_sessions'' = Some blob \<longrightarrow> stored_getVotingSessions L ls = JArr []) \<and>
         (ls ''voting_security_logs'' = Some blob \<longrightarrow> stored_getSecurityLogs L ls = JArr []) \<and>
         (ls ''voting_results'' = Some blob \<longrightarrow> stored_getElectionResults L ls = JArr []) \<and>
         (ls ''voting_current_user'' = Some blob \<longrightarrow> stored_getCurrentUser L ls = JNull)"
  using assms
  by (simp add: decrypt_fails_JNull getCollection_fail_soft stored_getUsers_def
      stored_getElections_def stored_getVotes_def stored_getVotingSessions_def
      stored_getSecurityLogs_def stored_getElectionResults_def stored_getCurrentUser_def)

theorem storage_reads_fail_soft_witness:
  "decrypt_fails toy_lib ''not a ciphertext'' \<and>
   decrypt_fails toy_lib (ENCRYPTION_KEY @ ''{not json'') \<and>
   decrypt toy_lib ''not a ciphertext'' = JNull \<and>
   stored_getUsers toy_lib corrupt_storage = JArr [] \<and>
   stored_getElections toy_lib corrupt_storage = JArr [] \<and>
   stored_getVotes toy_lib corrupt_storage = JArr [] \<and>
   stored_getVotingSessions toy_lib corrupt_storage = JArr [] \<and>
   stored_getSecurityLogs toy_lib corrupt_storage = JArr [] \<and>
   stored_getElectionResults toy_lib corrupt_storage = JArr [] \<and>
   stored_getCurrentUser toy_lib corrupt_storage = JNull \<and>
   stored_getUsers toy_lib (corrupt_storage(''voting_users'' \<mapsto> ENCRYPTION_KEY @ ''{not json'')) = JArr []"
proof -
  have f1: "decrypt_fails toy_lib ''not a ciphertext''"
    by (simp add: decrypt_fails_def decryptSensitiveData_def toy_lib_def ENCRYPTION_KEY_def)
  have f2: "decrypt_fails toy_lib (ENCRYPTION_KEY @ ''{not json'')"
    by (simp add: decrypt_fails_def decryptSensitiveData_def toy_lib_def toy_parse_def)
  from storage_reads_fail_soft [OF f1, of corrupt_storage]
    storage_reads_fail_soft [OF f2, of "corrupt_storage(''voting_users'' \<mapsto> ENCRYPTION_KEY @ ''{not json'')"]
    f1 f2
  show ?thesis by (simp add: corrupt_storage_def)
qed

text \<open>
  A collection that was saved is read back, provided the ciphertext is not the empty
  string (CryptoJS output never is). This is what lets the rest of the development
  work on the decoded collections.
\<close>

lemma stored_save_get:
  assumes "AES_inverts L" and "JSON_serializable L (JArr xs)"
    and "encrypt L salt (JArr xs) \<noteq> []"
  shows "getCollection L (stored_save L salt key (JArr xs) ls) key = JArr xs"
proof -
  have "decrypt L (encrypt L salt (JArr xs)) = JArr xs"
    using assms(1,2)
    by (simp add: decryptSensitiveData_encrypt decrypt_def encrypt_def JSON_serializable_def)
  with assms(3) show ?thesis by (simp add: getCollection_def stored_save_def)
qed

section \<open>The administrator account\<close>

lemma find_admin_None: "find (\<lambda>u. role u = Admin) (getUsers s) = None \<longleftrightarrow> admin_count s = 0"
  by (auto simp: admin_count_def find_None_iff filter_empty_conv)

lemma initializeAdminAccount_existing:
  "0 < admin_count s \<Longrightarrow> initializeAdminAccount L E s = s"
  using find_admin_None[of s]
  by (cases "find (\<lambda>u. role u = Admin) (getUsers s)") (simp_all add: initializeAdminAccount_def)

lemma initializeAdminAccount_none:
  "admin_count s = 0 \<Longrightarrow>
   initializeAdminAccount L E s = s\<lparr>voting_users := getUsers s @ [adminUser L E]\<rparr>"
  using find_admin_None[of s] by (simp add: initializeAdminAccount_def saveUsers_def)

lemma admin_count_initialized: "admin_count s = 0 \<Longrightarrow> admin_count (initializeAdminAccount L E s) = 1"
  by (simp add: initializeAdminAccount_none) (simp add: admin_count_def getUsers_def adminUser_def)

lemma initializeAdminAccount_twice:
  "initializeAdminAccount L E' (initializeAdminAccount L E s) = initializeAdminAccount L E s"
proof (cases "admin_count s = 0")
  case True
  then have "0 < admin_count (initializeAdminAccount L E s)"
    by (simp add: admin_count_initialized)
  then show ?thesis by (rule initializeAdminAccount_existing)
next
  case False
  then show ?thesis by (simp add: initializeAdminAccount_existing)
qed

lemma initializeAdminAccount_repeated:
  "foldl (\<lambda>s E. initializeAdminAccount L E s) (initializeAdminAccount L E s) Es =
   initializeAdminAccount L E s"
  by (induction Es) (simp_all add: initializeAdminAccount_twice)

text \<open>
  C7. \<^verbatim>\<open>initializeAdminAccount\<close> changes nothing when an admin-role user exists. When
  none exists it appends one user, of role admin, whose password is the hash of the
  fixed default. A second call changes nothing, and after one or more calls on a
  collection without admin there is exactly one admin record, the one the first call
  created.
\<close>

theorem initializeAdminAccount_idempotent:
  "(0 < admin_count s \<longrightarrow> initializeAdminAccount L E s = s) \<and>
   (admin_count s = 0 \<longrightarrow>
      getUsers (initializeAdminAccount L E s) = getUsers s @ [adminUser L E] \<and>
      role (adminUser L E) = Admin \<and>
      password (adminUser L E) = generateSecureHash L ''VoteBNMIT2024!Admin'' \<and>
      admin_count (initializeAdminAccount L E s) = 1) \<and>
   initializeAdminAccount L E' (initializeAdminAccount L E s) = initializeAdminAccount L E s \<and>
   (admin_count s = 0 \<longrightarrow>
      admin_count (foldl (\<lambda>s E. initializeAdminAccount L E s) s (E # Es)) = 1 \<and>
      getUsers (foldl (\<lambda>s E. initializeAdminAccount L E s) s (E # Es)) =
        getUsers s @ [adminUser L E])"
proof (intro conjI impI)
  assume "0 < admin_count s"
  then show "initializeAdminAccount L E s = s" by (rule initializeAdminAccount_existing)
next
  assume none: "admin_count s = 0"
  then show "getUsers (initializeAdminAccount L E s) = getUsers s @ [adminUser L E]"
    by (simp add: initializeAdminAccount_none) (simp add: getUsers_def)
  show "role (adminUser L E) = Admin" by (simp add: adminUser_def)
  show "password (adminUser L E) = generateSecureHash L ''VoteBNMIT2024!Admin''"
    by (simp add: adminUser_def)
  from none show "admin_count (initializeAdminAccount L E s) = 1"
    by (rule admin_count_initialized)
next
  show "initializeAdminAccount L E' (initializeAdminAccount L E s) = initializeAdminAccount L E s"
    by (rule initializeAdminAccount_twice)
next
  assume none: "admin_count s = 0"
  then show "admin_count (foldl (\<lambda>s E. initializeAdminAccount L E s) s (E # Es)) = 1"
    by (simp add: initializeAdminAccount_repeated admin_count_initialized)
  from none show "getUsers (foldl (\<lambda>s E. initializeAdminAccount L E s) s (E # Es)) =
        getUsers s @ [adminUser L E]"
    unfolding foldl.simps initializeAdminAccount_repeated
    by (simp add: initializeAdminAccount_none) (simp add: getUsers_def)
qed

theorem initializeAdminAccount_idempotent_witness:
  "\<forall>L. admin_count example_store = 0 \<and>
       admin_count (initializeAdminAccount L example_env example_store) = 1 \<and>
       getUsers (initializeAdminAccount L example_env example_store) =
         [example_voter, adminUser L example_env] \<and>
       initializeAdminAccount L example_env
         (initializeAdminAccount L example_env example_store) =
         initializeAdminAccount L example_env example_store \<and>
       admin_count
         (foldl (\<lambda>s E. initializeAdminAccount L E s) example_store
            [example_env, example_env, example_env]) = 1"
proof
  fix L
  have none: "admin_count example_store = 0"
    by (simp add: admin_count_def getUsers_def example_store_def example_voter_def)
  have users: "getUsers example_store = [example_voter]"
    by (simp add: getUsers_def example_store_def)
  from initializeAdminAccount_idempotent
         [of example_store L example_env example_env "[example_env, example_env]"] none users
  show "admin_count example_store = 0 \<and>
       admin_count (initializeAdminAccount L example_env example_store) = 1 \<and>
       getUsers (initializeAdminAccount L example_env example_store) =
         [example_voter, adminUser L example_env] \<and>
       initializeAdminAccount L example_env
         (initializeAdminAccount L example_env example_store) =
         initializeAdminAccount L example_env example_store \<and>
       admin_count
         (foldl (\<lambda>s E. initializeAdminAccount L E s) example_store
            [example_env, example_env, example_env]) = 1"
    by simp
qed

section \<open>Casting votes\<close>

lemma newVote_verifies: "verifyVoteIntegrity L (newVote L E election session ts entry)"
  by (cases entry) (simp add: verifyVoteIntegrity_def newVote_def)

lemma newVotes_verify: "v \<in> set (newVotes L E election session ts sel) \<Longrightarrow> verifyVoteIntegrity L v"
  by (auto simp: newVotes_def newVote_verifies)

lemma length_newVotes: "length (newVotes L E election session ts sel) = length (selected sel)"
  by (simp add: newVotes_def)

lemma newVotes_choices:
  "map (\<lambda>v. (positionId v, candidateId v)) (newVotes L E election session ts sel) = selected sel"
  by (simp add: newVotes_def newVote_def comp_def case_prod_beta map_snd_enumerate)

lemma newVotes_election:
  "v \<in> set (newVotes L E election session ts sel) \<Longrightarrow>
   electionId v = election_id election \<and> voterToken v = session_voterToken session \<and> timestamp v = ts \<and> verified v"
  by (auto simp: newVotes_def newVote_def)

text \<open>
  The selection object the mount effect builds has one entry per position id, and a
  vote change keeps it so.
\<close>

lemma distinct_foldl_update:
  "distinct (map fst m) \<Longrightarrow>
   distinct (map fst (foldl (\<lambda>m position. AList.update (position_id position) [] m) m ps))"
  by (induction ps arbitrary: m) (simp_all add: distinct_update)

lemma distinct_initialVotes: "distinct (map fst (initialVotes election))"
  unfolding initialVotes_def by (rule distinct_foldl_update) simp

lemma keys_foldl_update:
  "fst ` set (foldl (\<lambda>m position. AList.update (position_id position) [] m) m ps) =
   fst ` set m \<union> position_id ` set ps"
  by (induction ps arbitrary: m) (auto simp: AList.dom_update)

lemma keys_initialVotes:
  "fst ` set (initialVotes election) = position_id ` set (positions election)"
  unfolding initialVotes_def by (simp add: keys_foldl_update)

lemma distinct_handleVoteChange:
  "distinct (map fst (votes c)) \<Longrightarrow> distinct (map fst (votes (handleVoteChange pid cid c)))"
  by (simp add: handleVoteChange_def distinct_update)

lemma distinct_selected: "distinct (map fst sel) \<Longrightarrow> distinct (map fst (selected sel))"
  unfolding selected_def by (rule distinct_map_filter)

lemma newVotes_positions:
  "map positionId (newVotes L E election session ts sel) = map fst (selected sel)"
proof -
  have "map positionId (newVotes L E election session ts sel) =
        map fst (map (\<lambda>v. (positionId v, candidateId v)) (newVotes L E election session ts sel))"
    by (simp add: comp_def)
  then show ?thesis by (simp only: newVotes_choices)
qed

text \<open>
  The confirmation screen, which holds the submit button, is reached only with a
  non-empty selection for every position.
\<close>

lemma validateVotes_all_selected:
  assumes "snd (validateVotes election c)"
  shows "\<forall>position \<in> set (positions election).
           \<exists>cid. map_of (votes c) (position_id position) = Some cid \<and> cid \<noteq> []"
proof
  fix position
  assume "position \<in> set (positions election)"
  with assms have
    "\<not> (case map_of (votes c) (position_id position) of
           None \<Rightarrow> True | Some positionVote \<Rightarrow> positionVote = [])"
    unfolding validateVotes_def Let_def snd_conv concat_eq_Nil_conv
    by (auto split: if_splits)
  then show "\<exists>cid. map_of (votes c) (position_id position) = Some cid \<and> cid \<noteq> []"
    by (cases "map_of (votes c) (position_id position)") auto
qed

lemma handleNext_confirmation:
  assumes "showConfirmation (handleNext election c)" and "\<not> showConfirmation c"
  shows "\<forall>position \<in> set (positions election).
           \<exists>cid. map_of (votes c) (position_id position) = Some cid \<and> cid \<noteq> []"
proof -
  have "snd (validateVotes election c)"
  proof (rule ccontr)
    assume "\<not> snd (validateVotes election c)"
    then have "showConfirmation (handleNext election c) = showConfirmation c"
      by (cases "validateVotes election c")
         (auto simp: handleNext_def validateVotes_def Let_def)
    with assms show False by simp
  qed
  then show ?thesis by (rule validateVotes_all_selected)
qed

text \<open>
  \<^verbatim>\<open>find\<close> after a \<^verbatim>\<open>map\<close> that keeps the key.
\<close>

lemma find_map_keep:
  assumes "\<And>x. key (f x) = key x"
  shows "find (\<lambda>x. key x = k) (map f xs) = map_option f (find (\<lambda>x. key x = k) xs)"
  using assms by (induction xs) auto

lemma hasVoted_flag_set:
  "hasVoted_flag (u\<lparr>hasVoted := Some (spread_set (hasVoted u) eid True)\<rparr>) eid"
  by (simp add: hasVoted_flag_def spread_set_def update_Some_unfold)

text \<open>
  The writes of a submission that passes both guards.
\<close>

lemma submitVotes_completed:
  assumes "submitVotes L E election user s c = (s', c', OnComplete)"
  obtains session where
    "votingSession c = Some session"
    "\<not> hasUserVotedInElection s (user_id user) (election_id election)"
    "getVotes s' = getVotes s @ newVotes L E election session (Date_iso E) (votes c)"
    "getUsers s' =
       map (\<lambda>u. if user_id u = user_id user
                then u\<lparr>hasVoted := Some (spread_set (hasVoted u) (election_id election) True)\<rparr>
                else u) (getUsers s)"
    "getElections s' =
       map (\<lambda>e. if election_id e = election_id election
                then e\<lparr>totalVotes := totalVotes e + int (length (selected (votes c)))\<rparr>
                else e) (getElections s)"
    "getVotingSessions s' =
       map (\<lambda>x. if sessionId x = sessionId session then x\<lparr>session_isActive := False\<rparr> else x)
           (getVotingSessions s)"
    "isCompleted c'"
proof -
  from assms obtain session where a: "votingSession c = Some session"
    by (auto simp: submitVotes_def split: option.splits)
  from assms a have b: "\<not> hasUserVotedInElection s (user_id user) (election_id election)"
    by (auto simp: submitVotes_def split: if_splits)
  from assms a b have s': "s' = fst (submitVotes L E election user s c)" and c': "c' = fst (snd (submitVotes L E election user s c))"
    by simp_all
  show ?thesis
  proof (rule that[of session])
    show "votingSession c = Some session" by (fact a)
    show "\<not> hasUserVotedInElection s (user_id user) (election_id election)" by (fact b)
    show "getVotes s' = getVotes s @ newVotes L E election session (Date_iso E) (votes c)"
      unfolding s' using a b
      by (simp add: submitVotes_def Let_def store_defs split: option.splits)
    show "getUsers s' =
       map (\<lambda>u. if user_id u = user_id user
                then u\<lparr>hasVoted := Some (spread_set (hasVoted u) (election_id election) True)\<rparr>
                else u) (getUsers s)"
      unfolding s' using a b
      by (simp add: submitVotes_def Let_def store_defs split: option.splits)
    show "getElections s' =
       map (\<lambda>e. if election_id e = election_id election
                then e\<lparr>totalVotes := totalVotes e + int (length (selected (votes c)))\<rparr>
                else e) (getElections s)"
      unfolding s' using a b
      by (simp add: submitVotes_def Let_def store_defs length_newVotes split: option.splits)
    show "getVotingSessions s' =
       map (\<lambda>x. if sessionId x = sessionId session then x\<lparr>session_isActive := False\<rparr> else x)
           (getVotingSessions s)"
      unfolding s' using a b
      by (simp add: submitVotes_def Let_def store_defs split: option.splits)
    show "isCompleted c'"
      unfolding c' using a b
      by (simp add: submitVotes_def Let_def)
  qed
qed

lemma example_mounted_eval:
  "snd (snd example_mounted) = NoCallback"
  "getUsers (fst example_mounted) =
     [example_voter\<lparr>votingTokens := Some [(''e1'', ''a1b2'')]\<rparr>]"
  "getElections (fst example_mounted) = [example_election, other_election]"
  "getVotes (fst example_mounted) = []"
  "getVotingSessions (fst example_mounted) = [example_session]"
  "votes (fst (snd example_mounted)) = [(''p1'', []), (''p2'', []), (''p3'', [])]"
  "votingSession (fst (snd example_mounted)) = Some example_session"
  by (simp_all add: example_mounted_def VotingInterface_mount_def hasUserVotedInElection_def
      hasVoted_flag_def createVotingSession_def store_defs Let_def example_store_def
      example_voter_def example_election_def example_env_def VotingInterface_initial_def
      initialVotes_def president_def secretary_def treasurer_def spread_set_def
      example_session_def)

lemma example_ballot_eval:
  "votes example_ballot = [(''p1'', ''cA''), (''p2'', ''cD''), (''p3'', ''cF'')]"
  "votingSession example_ballot = Some example_session"
  "showConfirmation example_ballot"
  "errors example_ballot = []"
  by (simp_all add: example_ballot_def example_clicks_def handleVoteChange_def handleNext_def
      validateVotes_def Let_def example_mounted_eval example_election_def president_def
      secretary_def treasurer_def)

lemma example_not_voted:
  "\<not> hasUserVotedInElection (fst example_mounted) (user_id example_voter)
       (election_id example_election)"
  by (simp add: hasUserVotedInElection_def example_mounted_eval hasVoted_flag_def example_voter_def)

lemma example_submitted_run:
  "example_submitted L =
     (fst (example_submitted L), fst (snd (example_submitted L)), OnComplete)"
proof -
  have "snd (snd (example_submitted L)) = OnComplete"
    using example_not_voted example_ballot_eval(2)
    by (simp add: example_submitted_def submitVotes_def Let_def)
  then show ?thesis by (metis prod.collapse)
qed

text \<open>
  C9. Every vote record a completed submission appends passes \<^verbatim>\<open>verifyVoteIntegrity\<close>:
  its hash field is \<^verbatim>\<open>hashVote\<close> of its own five fields.
\<close>

theorem submitted_votes_verify:
  assumes "submitVotes L E election user s c = (s', c', OnComplete)"
  shows "\<forall>v \<in> set (drop (length (getVotes s)) (getVotes s')). verifyVoteIntegrity L v"
  using assms by (elim submitVotes_completed) (auto simp: newVotes_verify)

theorem submitted_votes_verify_witness:
  "\<forall>L. snd (snd (example_submitted L)) = OnComplete \<and>
       length (getVotes (fst example_mounted)) = 0 \<and>
       length (getVotes (fst (example_submitted L))) = 3 \<and>
       list_all (verifyVoteIntegrity L) (getVotes (fst (example_submitted L)))"
proof
  fix L
  note run = example_submitted_run [of L, unfolded example_submitted_def]
  note verified = submitted_votes_verify [OF run, folded example_submitted_def]
  from run obtain session where
    "getVotes (fst (example_submitted L)) =
       getVotes (fst example_mounted) @
       newVotes L example_env example_election session (Date_iso example_env)
         (votes example_ballot)"
    unfolding example_submitted_def by (rule submitVotes_completed)
  then have "length (getVotes (fst (example_submitted L))) = 3"
    by (simp add: example_mounted_eval length_newVotes example_ballot_eval selected_def)
  moreover have "snd (snd (example_submitted L)) = OnComplete"
    using example_submitted_run [of L] by (metis snd_conv)
  ultimately show "snd (snd (example_submitted L)) = OnComplete \<and>
       length (getVotes (fst example_mounted)) = 0 \<and>
       length (getVotes (fst (example_submitted L))) = 3 \<and>
       list_all (verifyVoteIntegrity L) (getVotes (fst (example_submitted L)))"
    using verified by (simp add: example_mounted_eval list_all_iff)
qed

lemma partial_ballot_eval:
  "votes partial_ballot = [(''p1'', ''cA''), (''p2'', []), (''p3'', ''cF'')]"
  "votingSession partial_ballot = Some example_session"
  by (simp_all add: partial_ballot_def handleVoteChange_def example_mounted_eval)

lemma partial_submitted_run:
  "partial_submitted L =
     (fst (partial_submitted L), fst (snd (partial_submitted L)), OnComplete)"
proof -
  have "snd (snd (partial_submitted L)) = OnComplete"
    using example_not_voted partial_ballot_eval(2)
    by (simp add: partial_submitted_def submitVotes_def Let_def)
  then show ?thesis by (metis prod.collapse)
qed

lemma unregistered_mounted_eval:
  "snd (snd unregistered_mounted) = NoCallback"
  "getUsers (fst unregistered_mounted) = []"
  "getElections (fst unregistered_mounted) = [example_election, other_election]"
  "getVotes (fst unregistered_mounted) = []"
  "getVotingSessions (fst unregistered_mounted) = [example_session]"
  "votes (fst (snd unregistered_mounted)) = [(''p1'', []), (''p2'', []), (''p3'', [])]"
  "votingSession (fst (snd unregistered_mounted)) = Some example_session"
  by (simp_all add: unregistered_mounted_def unregistered_store_def VotingInterface_mount_def
      hasUserVotedInElection_def createVotingSession_def store_defs Let_def example_store_def
      example_voter_def example_election_def example_env_def VotingInterface_initial_def
      initialVotes_def president_def secretary_def treasurer_def example_session_def)

lemma unregistered_ballot_eval:
  "votes unregistered_ballot = [(''p1'', ''cA''), (''p2'', ''cD''), (''p3'', ''cF'')]"
  "votingSession unregistered_ballot = Some example_session"
  "showConfirmation unregistered_ballot"
  "errors unregistered_ballot = []"
  by (simp_all add: unregistered_ballot_def example_clicks_def handleVoteChange_def
      handleNext_def validateVotes_def Let_def unregistered_mounted_eval example_election_def
      president_def secretary_def treasurer_def)

lemma unregistered_not_voted:
  "\<not> hasUserVotedInElection (fst unregistered_mounted) (user_id example_voter)
       (election_id example_election)"
  by (simp add: hasUserVotedInElection_def unregistered_mounted_eval)

lemma unregistered_submitted_run:
  "unregistered_submitted L =
     (fst (unregistered_submitted L), fst (snd (unregistered_submitted L)), OnComplete)"
proof -
  have "snd (snd (unregistered_submitted L)) = OnComplete"
    using unregistered_not_voted unregistered_ballot_eval(2)
    by (simp add: unregistered_submitted_def submitVotes_def Let_def)
  then show ?thesis by (metis prod.collapse)
qed

text \<open>
  C2, as stated. The claim promises, for every submission that completes, that the
  user's has-voted flag is set. \<^verbatim>\<open>submitVotes\<close> sets the flag by mapping over the stored
  users collection and adds no record. For the logged-in voter of the example and a
  users collection that reads as empty, the whole flow runs as before: the mount effect
  finds no earlier vote and opens a session, the three selections pass validation, the
  submission reaches the completed state and \<^verbatim>\<open>onComplete\<close>, three vote records are
  written, the election's counter goes from 0 to 3 and the session is closed. The flag
  is not set: \<^verbatim>\<open>hasUserVotedInElection\<close> is still false, and the same user can vote
  again.
\<close>

theorem submitVotes_flag_not_set:
  "\<forall>L. getUsers unregistered_store = [] \<and>
       getCurrentUser unregistered_store = Some example_voter \<and>
       snd (snd unregistered_mounted) = NoCallback \<and>
       showConfirmation unregistered_ballot \<and>
       snd (snd (unregistered_submitted L)) = OnComplete \<and>
       isCompleted (fst (snd (unregistered_submitted L))) \<and>
       map (\<lambda>v. (positionId v, candidateId v)) (getVotes (fst (unregistered_submitted L))) =
         [(''p1'', ''cA''), (''p2'', ''cD''), (''p3'', ''cF'')] \<and>
       map_option totalVotes (getElectionById (fst (unregistered_submitted L)) ''e1'') = Some 3 \<and>
       map session_isActive (getVotingSessions (fst (unregistered_submitted L))) = [False] \<and>
       \<not> hasUserVotedInElection (fst (unregistered_submitted L)) ''1700000000001'' ''e1''"
proof
  fix L
  note run = unregistered_submitted_run [of L, unfolded unregistered_submitted_def]
  from run obtain session where
    sess: "votingSession unregistered_ballot = Some session"
    and votes': "getVotes (fst (unregistered_submitted L)) =
       getVotes (fst unregistered_mounted) @
       newVotes L example_env example_election session (Date_iso example_env)
         (votes unregistered_ballot)"
    and users': "getUsers (fst (unregistered_submitted L)) =
       map (\<lambda>u. if user_id u = user_id example_voter
                then u\<lparr>hasVoted :=
                       Some (spread_set (hasVoted u) (election_id example_election) True)\<rparr>
                else u) (getUsers (fst unregistered_mounted))"
    and elections': "getElections (fst (unregistered_submitted L)) =
       map (\<lambda>e. if election_id e = election_id example_election
                then e\<lparr>totalVotes := totalVotes e +
                       int (length (selected (votes unregistered_ballot)))\<rparr>
                else e) (getElections (fst unregistered_mounted))"
    and sessions': "getVotingSessions (fst (unregistered_submitted L)) =
       map (\<lambda>x. if sessionId x = sessionId session then x\<lparr>session_isActive := False\<rparr> else x)
           (getVotingSessions (fst unregistered_mounted))"
    and completed: "isCompleted (fst (snd (unregistered_submitted L)))"
    unfolding unregistered_submitted_def by (rule submitVotes_completed)
  from sess have session: "session = example_session"
    by (simp add: unregistered_ballot_eval)
  have sel: "selected (votes unregistered_ballot) =
               [(''p1'', ''cA''), (''p2'', ''cD''), (''p3'', ''cF'')]"
    by (simp add: unregistered_ballot_eval selected_def)
  have c1: "getUsers unregistered_store = []"
    by (simp add: unregistered_store_def getUsers_def)
  have c2: "getCurrentUser unregistered_store = Some example_voter"
    by (simp add: unregistered_store_def getCurrentUser_def example_store_def)
  have c3: "snd (snd (unregistered_submitted L)) = OnComplete"
    using unregistered_submitted_run [of L] by (metis snd_conv)
  have c4: "map (\<lambda>v. (positionId v, candidateId v)) (getVotes (fst (unregistered_submitted L))) =
         [(''p1'', ''cA''), (''p2'', ''cD''), (''p3'', ''cF'')]"
    unfolding votes' by (simp add: unregistered_mounted_eval newVotes_choices sel)
  have c5: "map_option totalVotes (getElectionById (fst (unregistered_submitted L)) ''e1'') =
         Some 3"
    unfolding getElectionById_def elections' sel
    by (simp add: unregistered_mounted_eval example_election_def other_election_def)
  have c6: "map session_isActive (getVotingSessions (fst (unregistered_submitted L))) = [False]"
    unfolding sessions' session by (simp add: unregistered_mounted_eval)
  have c7: "\<not> hasUserVotedInElection (fst (unregistered_submitted L)) ''1700000000001'' ''e1''"
    unfolding hasUserVotedInElection_def users' by (simp add: unregistered_mounted_eval)
  from c1 c2 c3 c4 c5 c6 c7 completed unregistered_mounted_eval(1) unregistered_ballot_eval(3)
  show "getUsers unregistered_store = [] \<and>
       getCurrentUser unregistered_store = Some example_voter \<and>
       snd (snd unregistered_mounted) = NoCallback \<and>
       showConfirmation unregistered_ballot \<and>
       snd (snd (unregistered_submitted L)) = OnComplete \<and>
       isCompleted (fst (snd (unregistered_submitted L))) \<and>
       map (\<lambda>v. (positionId v, candidateId v)) (getVotes (fst (unregistered_submitted L))) =
         [(''p1'', ''cA''), (''p2'', ''cD''), (''p3'', ''cF'')] \<and>
       map_option totalVotes (getElectionById (fst (unregistered_submitted L)) ''e1'') = Some 3 \<and>
       map session_isActive (getVotingSessions (fst (unregistered_submitted L))) = [False] \<and>
       \<not> hasUserVotedInElection (fst (unregistered_submitted L)) ''1700000000001'' ''e1''"
    by (intro conjI)
qed

text \<open>
  C2, amended. A submission that completes: one vote record is appended for each entry
  of the selection with a non-empty candidate, in the selection's order, carrying that
  position and candidate and the election's id; the stored election's \<open>totalVotes\<close>
  grows by the number of those entries; \<^verbatim>\<open>hasUserVotedInElection\<close> was false before, and
  is true after exactly when the user has a record in the stored users collection; the
  stored session is the same record with \<open>isActive\<close> false.
\<close>

theorem submitVotes_effects:
  assumes run: "submitVotes L E election user s c = (s', c', OnComplete)"
  shows "isCompleted c' \<and>
         (\<exists>new. getVotes s' = getVotes s @ new \<and>
            map (\<lambda>v. (positionId v, candidateId v)) new =
              filter (\<lambda>(pid, cid). cid \<noteq> []) (votes c) \<and>
            (\<forall>v \<in> set new. electionId v = election_id election) \<and>
            (distinct (map fst (votes c)) \<longrightarrow> distinct (map positionId new))) \<and>
         getElectionById s' (election_id election) =
           map_option
             (\<lambda>e. e\<lparr>totalVotes :=
                      totalVotes e + int (length (filter (\<lambda>(pid, cid). cid \<noteq> []) (votes c)))\<rparr>)
             (getElectionById s (election_id election)) \<and>
         \<not> hasUserVotedInElection s (user_id user) (election_id election) \<and>
         (hasUserVotedInElection s' (user_id user) (election_id election) \<longleftrightarrow>
            (\<exists>u \<in> set (getUsers s). user_id u = user_id user)) \<and>
         (\<exists>session. votingSession c = Some session \<and>
            (\<forall>x \<in> set (getVotingSessions s').
               sessionId x = sessionId session \<longrightarrow> \<not> session_isActive x) \<and>
            map sessionId (getVotingSessions s') = map sessionId (getVotingSessions s) \<and>
            (session \<in> set (getVotingSessions s) \<longrightarrow>
               session\<lparr>session_isActive := False\<rparr> \<in> set (getVotingSessions s')))"
proof -
  from run obtain session where
    sess: "votingSession c = Some session"
    and fresh: "\<not> hasUserVotedInElection s (user_id user) (election_id election)"
    and votes': "getVotes s' = getVotes s @ newVotes L E election session (Date_iso E) (votes c)"
    and users': "getUsers s' =
       map (\<lambda>u. if user_id u = user_id user
                then u\<lparr>hasVoted := Some (spread_set (hasVoted u) (election_id election) True)\<rparr>
                else u) (getUsers s)"
    and elections': "getElections s' =
       map (\<lambda>e. if election_id e = election_id election
                then e\<lparr>totalVotes := totalVotes e + int (length (selected (votes c)))\<rparr>
                else e) (getElections s)"
    and sessions': "getVotingSessions s' =
       map (\<lambda>x. if sessionId x = sessionId session then x\<lparr>session_isActive := False\<rparr> else x)
           (getVotingSessions s)"
    and completed: "isCompleted c'"
    by (rule submitVotes_completed)
  have sel: "selected (votes c) = filter (\<lambda>(pid, cid). cid \<noteq> []) (votes c)"
    by (simp add: selected_def)
  have appended: "\<exists>new. getVotes s' = getVotes s @ new \<and>
           map (\<lambda>v. (positionId v, candidateId v)) new =
             filter (\<lambda>(pid, cid). cid \<noteq> []) (votes c) \<and>
           (\<forall>v \<in> set new. electionId v = election_id election) \<and>
           (distinct (map fst (votes c)) \<longrightarrow> distinct (map positionId new))"
    unfolding sel [symmetric]
    using votes' newVotes_choices newVotes_election
    by (intro exI [of _ "newVotes L E election session (Date_iso E) (votes c)"])
       (simp add: newVotes_positions distinct_selected)
  have counter: "getElectionById s' (election_id election) =
           map_option
             (\<lambda>e. e\<lparr>totalVotes :=
                      totalVotes e + int (length (filter (\<lambda>(pid, cid). cid \<noteq> []) (votes c)))\<rparr>)
             (getElectionById s (election_id election))"
  proof -
    have "find (\<lambda>e. election_id e = election_id election) (getElections s') =
          map_option (\<lambda>e. if election_id e = election_id election
                then e\<lparr>totalVotes := totalVotes e + int (length (selected (votes c)))\<rparr>
                else e) (find (\<lambda>e. election_id e = election_id election) (getElections s))"
      unfolding elections' by (rule find_map_keep) simp
    then show ?thesis
      unfolding getElectionById_def sel [symmetric]
      by (cases "find (\<lambda>e. election_id e = election_id election) (getElections s)")
         (auto dest: find_Some_iff[THEN iffD1])
  qed
  have found: "find (\<lambda>u. user_id u = user_id user) (getUsers s') =
          map_option (\<lambda>u. if user_id u = user_id user
                then u\<lparr>hasVoted := Some (spread_set (hasVoted u) (election_id election) True)\<rparr>
                else u) (find (\<lambda>u. user_id u = user_id user) (getUsers s))"
    unfolding users' by (rule find_map_keep) simp
  have flagged: "hasUserVotedInElection s' (user_id user) (election_id election) \<longleftrightarrow>
           (\<exists>u \<in> set (getUsers s). user_id u = user_id user)"
  proof (cases "find (\<lambda>u. user_id u = user_id user) (getUsers s)")
    case None
    then have "\<not> (\<exists>u \<in> set (getUsers s). user_id u = user_id user)"
      by (simp add: find_None_iff)
    moreover from None found
    have "\<not> hasUserVotedInElection s' (user_id user) (election_id election)"
      by (simp add: hasUserVotedInElection_def)
    ultimately show ?thesis by simp
  next
    case (Some u)
    then have uid: "user_id u = user_id user" and mem: "u \<in> set (getUsers s)"
      by (auto simp: find_Some_iff)
    from Some found uid
    have "hasUserVotedInElection s' (user_id user) (election_id election)"
      by (simp add: hasUserVotedInElection_def hasVoted_flag_set)
    with uid mem show ?thesis by blast
  qed
  have closed: "\<exists>session. votingSession c = Some session \<and>
           (\<forall>x \<in> set (getVotingSessions s').
              sessionId x = sessionId session \<longrightarrow> \<not> session_isActive x) \<and>
           map sessionId (getVotingSessions s') = map sessionId (getVotingSessions s) \<and>
           (session \<in> set (getVotingSessions s) \<longrightarrow>
              session\<lparr>session_isActive := False\<rparr> \<in> set (getVotingSessions s'))"
    using sess unfolding sessions' by (auto simp: comp_def image_iff intro!: bexI)
  from completed appended counter fresh flagged closed show ?thesis by blast
qed

text \<open>
  Two runs from the mounted state of the registered voter: the whole flow (three
  selections, validation, submission from the confirmation screen), and a submission of
  the selection that leaves the secretary open, which appends two records and counts
  two.
\<close>

theorem submitVotes_effects_witness:
  "\<forall>L. showConfirmation example_ballot \<and>
       snd (snd (example_submitted L)) = OnComplete \<and>
       votes example_ballot = [(''p1'', ''cA''), (''p2'', ''cD''), (''p3'', ''cF'')] \<and>
       map (\<lambda>v. (positionId v, candidateId v)) (getVotes (fst (example_submitted L))) =
         [(''p1'', ''cA''), (''p2'', ''cD''), (''p3'', ''cF'')] \<and>
       map_option totalVotes (getElectionById (fst example_mounted) ''e1'') = Some 0 \<and>
       map_option totalVotes (getElectionById (fst (example_submitted L)) ''e1'') = Some 3 \<and>
       map user_id (getUsers (fst example_mounted)) = [''1700000000001''] \<and>
       \<not> hasUserVotedInElection (fst example_mounted) ''1700000000001'' ''e1'' \<and>
       hasUserVotedInElection (fst (example_submitted L)) ''1700000000001'' ''e1'' \<and>
       map session_isActive (getVotingSessions (fst (example_submitted L))) = [False] \<and>
       isCompleted (fst (snd (example_submitted L))) \<and>
       snd (snd (partial_submitted L)) = OnComplete \<and>
       votes partial_ballot = [(''p1'', ''cA''), (''p2'', []), (''p3'', ''cF'')] \<and>
       map (\<lambda>v. (positionId v, candidateId v)) (getVotes (fst (partial_submitted L))) =
         [(''p1'', ''cA''), (''p3'', ''cF'')] \<and>
       map_option totalVotes (getElectionById (fst (partial_submitted L)) ''e1'') = Some 2 \<and>
       hasUserVotedInElection (fst (partial_submitted L)) ''1700000000001'' ''e1'' \<and>
       map session_isActive (getVotingSessions (fst (partial_submitted L))) = [False] \<and>
       isCompleted (fst (snd (partial_submitted L)))"
proof
  fix L
  have registered:
    "\<exists>u \<in> set (getUsers (fst example_mounted)). user_id u = user_id example_voter"
    by (simp add: example_mounted_eval)
  have users: "map user_id (getUsers (fst example_mounted)) = [''1700000000001'']"
    by (simp add: example_mounted_eval example_voter_def)
  have sel: "filter (\<lambda>(pid, cid). cid \<noteq> []) (votes example_ballot) =
               [(''p1'', ''cA''), (''p2'', ''cD''), (''p3'', ''cF'')]"
    by (simp add: example_ballot_eval)
  have sel_p: "filter (\<lambda>(pid, cid). cid \<noteq> []) (votes partial_ballot) =
               [(''p1'', ''cA''), (''p3'', ''cF'')]"
    by (simp add: partial_ballot_eval)
  have before: "map_option totalVotes (getElectionById (fst example_mounted) ''e1'') = Some 0"
    by (simp add: getElectionById_def example_mounted_eval example_election_def)
  have sid: "sessionId example_session = ''c3d4''" by (simp add: example_session_def)
  have sessions: "map session_isActive (getVotingSessions s') = [False]"
    if "\<forall>x \<in> set (getVotingSessions s'). sessionId x = ''c3d4'' \<longrightarrow> \<not> session_isActive x"
      and "map sessionId (getVotingSessions s') = [''c3d4'']" for s'
    using that by (cases "getVotingSessions s'") auto
  have ids: "election_id example_election = ''e1''" "user_id example_voter = ''1700000000001''"
    by (simp_all add: example_election_def example_voter_def)
  note run = example_submitted_run [of L, unfolded example_submitted_def]
  note effects = submitVotes_effects [OF run, folded example_submitted_def]
  note run_p = partial_submitted_run [of L, unfolded partial_submitted_def]
  note effects_p = submitVotes_effects [OF run_p, folded partial_submitted_def]
  have full:
    "map (\<lambda>v. (positionId v, candidateId v)) (getVotes (fst (example_submitted L))) =
       [(''p1'', ''cA''), (''p2'', ''cD''), (''p3'', ''cF'')] \<and>
     map_option totalVotes (getElectionById (fst (example_submitted L)) ''e1'') = Some 3 \<and>
     hasUserVotedInElection (fst (example_submitted L)) ''1700000000001'' ''e1'' \<and>
     map session_isActive (getVotingSessions (fst (example_submitted L))) = [False] \<and>
     isCompleted (fst (snd (example_submitted L)))"
  proof -
    from effects registered obtain new where
      completed: "isCompleted (fst (snd (example_submitted L)))"
      and new: "getVotes (fst (example_submitted L)) = getVotes (fst example_mounted) @ new"
        "map (\<lambda>v. (positionId v, candidateId v)) new =
           filter (\<lambda>(pid, cid). cid \<noteq> []) (votes example_ballot)"
      and counter: "getElectionById (fst (example_submitted L)) (election_id example_election) =
           map_option (\<lambda>e. e\<lparr>totalVotes := totalVotes e +
                 int (length (filter (\<lambda>(pid, cid). cid \<noteq> []) (votes example_ballot)))\<rparr>)
             (getElectionById (fst example_mounted) (election_id example_election))"
      and flagged: "hasUserVotedInElection (fst (example_submitted L)) (user_id example_voter)
           (election_id example_election)"
      and closed: "\<forall>x \<in> set (getVotingSessions (fst (example_submitted L))).
               sessionId x = sessionId example_session \<longrightarrow> \<not> session_isActive x"
        "map sessionId (getVotingSessions (fst (example_submitted L))) =
           map sessionId (getVotingSessions (fst example_mounted))"
      using example_ballot_eval(2) by auto
    have "map (\<lambda>v. (positionId v, candidateId v)) (getVotes (fst (example_submitted L))) =
            [(''p1'', ''cA''), (''p2'', ''cD''), (''p3'', ''cF'')]"
      using new sel by (simp add: example_mounted_eval)
    moreover have
      "map_option totalVotes (getElectionById (fst (example_submitted L)) ''e1'') = Some 3"
      using counter before unfolding ids sel
      by (cases "getElectionById (fst example_mounted) ''e1''") auto
    moreover have
      "map session_isActive (getVotingSessions (fst (example_submitted L))) = [False]"
      using closed sid by (intro sessions) (simp_all add: example_mounted_eval)
    ultimately show ?thesis using completed flagged unfolding ids by simp
  qed
  have part:
    "map (\<lambda>v. (positionId v, candidateId v)) (getVotes (fst (partial_submitted L))) =
       [(''p1'', ''cA''), (''p3'', ''cF'')] \<and>
     map_option totalVotes (getElectionById (fst (partial_submitted L)) ''e1'') = Some 2 \<and>
     hasUserVotedInElection (fst (partial_submitted L)) ''1700000000001'' ''e1'' \<and>
     map session_isActive (getVotingSessions (fst (partial_submitted L))) = [False] \<and>
     isCompleted (fst (snd (partial_submitted L)))"
  proof -
    from effects_p registered obtain new where
      completed: "isCompleted (fst (snd (partial_submitted L)))"
      and new: "getVotes (fst (partial_submitted L)) = getVotes (fst example_mounted) @ new"
        "map (\<lambda>v. (positionId v, candidateId v)) new =
           filter (\<lambda>(pid, cid). cid \<noteq> []) (votes partial_ballot)"
      and counter: "getElectionById (fst (partial_submitted L)) (election_id example_election) =
           map_option (\<lambda>e. e\<lparr>totalVotes := totalVotes e +
                 int (length (filter (\<lambda>(pid, cid). cid \<noteq> []) (votes partial_ballot)))\<rparr>)
             (getElectionById (fst example_mounted) (election_id example_election))"
      and flagged: "hasUserVotedInElection (fst (partial_submitted L)) (user_id example_voter)
           (election_id example_election)"
      and closed: "\<forall>x \<in> set (getVotingSessions (fst (partial_submitted L))).
               sessionId x = sessionId example_session \<longrightarrow> \<not> session_isActive x"
        "map sessionId (getVotingSessions (fst (partial_submitted L))) =
           map sessionId (getVotingSessions (fst example_mounted))"
      using partial_ballot_eval(2) by auto
    have "map (\<lambda>v. (positionId v, candidateId v)) (getVotes (fst (partial_submitted L))) =
            [(''p1'', ''cA''), (''p3'', ''cF'')]"
      using new sel_p by (simp add: example_mounted_eval)
    moreover have
      "map_option totalVotes (getElectionById (fst (partial_submitted L)) ''e1'') = Some 2"
      using counter before unfolding ids sel_p
      by (cases "getElectionById (fst example_mounted) ''e1''") auto
    moreover have
      "map session_isActive (getVotingSessions (fst (partial_submitted L))) = [False]"
      using closed sid by (intro sessions) (simp_all add: example_mounted_eval)
    ultimately show ?thesis using completed flagged unfolding ids by simp
  qed
  have ended: "snd (snd (example_submitted L)) = OnComplete"
    using example_submitted_run [of L] by (metis snd_conv)
  have ended_p: "snd (snd (partial_submitted L)) = OnComplete"
    using partial_submitted_run [of L] by (metis snd_conv)
  have fresh: "\<not> hasUserVotedInElection (fst example_mounted) ''1700000000001'' ''e1''"
    using example_not_voted unfolding ids .
  from full part ended ended_p fresh users before example_ballot_eval(1,3) partial_ballot_eval(1)
  show "showConfirmation example_ballot \<and>
       snd (snd (example_submitted L)) = OnComplete \<and>
       votes example_ballot = [(''p1'', ''cA''), (''p2'', ''cD''), (''p3'', ''cF'')] \<and>
       map (\<lambda>v. (positionId v, candidateId v)) (getVotes (fst (example_submitted L))) =
         [(''p1'', ''cA''), (''p2'', ''cD''), (''p3'', ''cF'')] \<and>
       map_option totalVotes (getElectionById (fst example_mounted) ''e1'') = Some 0 \<and>
       map_option totalVotes (getElectionById (fst (example_submitted L)) ''e1'') = Some 3 \<and>
       map user_id (getUsers (fst example_mounted)) = [''1700000000001''] \<and>
       \<not> hasUserVotedInElection (fst example_mounted) ''1700000000001'' ''e1'' \<and>
       hasUserVotedInElection (fst (example_submitted L)) ''1700000000001'' ''e1'' \<and>
       map session_isActive (getVotingSessions (fst (example_submitted L))) = [False] \<and>
       isCompleted (fst (snd (example_submitted L))) \<and>
       snd (snd (partial_submitted L)) = OnComplete \<and>
       votes partial_ballot = [(''p1'', ''cA''), (''p2'', []), (''p3'', ''cF'')] \<and>
       map (\<lambda>v. (positionId v, candidateId v)) (getVotes (fst (partial_submitted L))) =
         [(''p1'', ''cA''), (''p3'', ''cF'')] \<and>
       map_option totalVotes (getElectionById (fst (partial_submitted L)) ''e1'') = Some 2 \<and>
       hasUserVotedInElection (fst (partial_submitted L)) ''1700000000001'' ''e1'' \<and>
       map session_isActive (getVotingSessions (fst (partial_submitted L))) = [False] \<and>
       isCompleted (fst (snd (partial_submitted L)))"
    by blast
qed

text \<open>
  C4. Mounting the voting interface for a user who has already voted in the election
  calls \<^verbatim>\<open>onCancel\<close>, appends one log entry of type \<open>double_vote_attempt\<close> and severity
  \<open>high\<close>, and leaves the sessions collection and the component's session untouched.
\<close>

theorem double_vote_short_circuit:
  assumes voted: "hasUserVotedInElection s (user_id user) (election_id election)"
  shows "snd (snd (VotingInterface_mount E election user s c)) = OnCancel \<and>
         fst (snd (VotingInterface_mount E election user s c)) = c \<and>
         getVotingSessions (fst (VotingInterface_mount E election user s c)) =
           getVotingSessions s \<and>
         (\<exists>entry.
            getSecurityLogs (fst (VotingInterface_mount E election user s c)) =
              getSecurityLogs s @ [entry] \<and>
            log_type entry = double_vote_attempt \<and> severity entry = high \<and>
            userId entry = Some (user_id user) \<and>
            log_electionId entry = Some (election_id election)) \<and>
         getUsers (fst (VotingInterface_mount E election user s c)) = getUsers s \<and>
         getVotes (fst (VotingInterface_mount E election user s c)) = getVotes s \<and>
         getElections (fst (VotingInterface_mount E election user s c)) = getElections s"
  using voted by (simp add: VotingInterface_mount_def store_defs Let_def)

theorem double_vote_short_circuit_witness:
  "hasUserVotedInElection voted_store (user_id example_voter) (election_id example_election) \<and>
   snd (snd (VotingInterface_mount example_env example_election example_voter voted_store
               VotingInterface_initial)) = OnCancel \<and>
   getVotingSessions voted_store = [] \<and>
   getVotingSessions (fst (VotingInterface_mount example_env example_election example_voter
                             voted_store VotingInterface_initial)) = [] \<and>
   map log_type (getSecurityLogs (fst (VotingInterface_mount example_env example_election
                                         example_voter voted_store VotingInterface_initial))) =
     [double_vote_attempt] \<and>
   map severity (getSecurityLogs (fst (VotingInterface_mount example_env example_election
                                         example_voter voted_store VotingInterface_initial))) =
     [high]"
proof -
  have voted: "hasUserVotedInElection voted_store (user_id example_voter)
                 (election_id example_election)"
    by (simp add: hasUserVotedInElection_def hasVoted_flag_def voted_store_def example_store_def
        example_voter_def example_election_def getUsers_def)
  have empty: "getVotingSessions voted_store = []" "getSecurityLogs voted_store = []"
    by (simp_all add: voted_store_def example_store_def store_defs)
  from double_vote_short_circuit [OF voted, of example_env VotingInterface_initial] voted empty
  show ?thesis by auto
qed

section \<open>Deleting an election\<close>

lemma find_filter_other:
  "k' \<noteq> k \<Longrightarrow> find (\<lambda>x. key x = k') (filter (\<lambda>x. key x \<noteq> k) xs) = find (\<lambda>x. key x = k') xs"
  by (induction xs) auto

lemma filter_filter_other:
  "k' \<noteq> k \<Longrightarrow> filter (\<lambda>x. key x = k') (filter (\<lambda>x. key x \<noteq> k) xs) = filter (\<lambda>x. key x = k') xs"
  by (induction xs) auto

lemma getVotesByElection_other:
  assumes "getVotes s' = filter (\<lambda>v. electionId v \<noteq> eid) (getVotes s)" and "other \<noteq> eid"
  shows "getVotesByElection s' other = getVotesByElection s other"
  unfolding getVotesByElection_def assms(1) using assms(2) by (rule filter_filter_other)

lemma getElectionById_other:
  assumes "getElections s' = filter (\<lambda>e. election_id e \<noteq> eid) (getElections s)"
    and "other \<noteq> eid"
  shows "getElectionById s' other = getElectionById s other"
  unfolding getElectionById_def assms(1) using assms(2) by (rule find_filter_other)

text \<open>
  The elections written back are the component's copy without the deleted one,
  whatever the store held; a declined dialog changes nothing.
\<close>

lemma deleteElection_writes_copy:
  "getElections (fst (deleteElection E True elections eid s)) =
     filter (\<lambda>e. election_id e \<noteq> eid) elections"
  by (simp add: deleteElection_def Let_def store_defs)

lemma deleteElection_declined: "deleteElection E False elections eid s = (s, elections)"
  by (simp add: deleteElection_def)

lemma deleteElection_loaded_frame:
  assumes loaded: "elections = loadElections s"
    and result: "deleteElection E True elections eid s = (s', elections')"
  shows "getElections s' = filter (\<lambda>e. election_id e \<noteq> eid) (getElections s) \<and>
         getVotes s' = filter (\<lambda>v. electionId v \<noteq> eid) (getVotes s) \<and>
         getElectionById s' eid = None \<and>
         getVotesByElection s' eid = [] \<and>
         (\<forall>other. other \<noteq> eid \<longrightarrow>
            getElectionById s' other = getElectionById s other \<and>
            getVotesByElection s' other = getVotesByElection s other) \<and>
         getUsers s' = getUsers s \<and>
         getVotingSessions s' = getVotingSessions s \<and>
         elections' = loadElections s'"
proof -
  from result have s': "s' = fst (deleteElection E True elections eid s)"
    and e': "elections' = snd (deleteElection E True elections eid s)" by simp_all
  have el: "getElections s' = filter (\<lambda>e. election_id e \<noteq> eid) (getElections s)"
    unfolding s' loaded by (simp add: deleteElection_def Let_def store_defs loadElections_def)
  have vo: "getVotes s' = filter (\<lambda>v. electionId v \<noteq> eid) (getVotes s)"
    unfolding s' by (simp add: deleteElection_def Let_def store_defs)
  have gone: "getElectionById s' eid = None" "getVotesByElection s' eid = []"
    unfolding getElectionById_def getVotesByElection_def el vo
    by (simp_all add: find_None_iff filter_empty_conv)
  have others: "getElectionById s' other = getElectionById s other \<and>
            getVotesByElection s' other = getVotesByElection s other" if "other \<noteq> eid" for other
    using that getElectionById_other[OF el] getVotesByElection_other[OF vo] by simp
  have rest: "getUsers s' = getUsers s" "getVotingSessions s' = getVotingSessions s"
    unfolding s' by (simp_all add: deleteElection_def Let_def store_defs)
  have reload: "elections' = loadElections s'"
    unfolding s' e' by (simp add: deleteElection_def Let_def)
  from el vo gone others rest reload show ?thesis by blast
qed

lemma deleteElection_reloads:
  assumes "elections = loadElections s"
  shows "snd (deleteElection E confirmed elections eid s) =
         loadElections (fst (deleteElection E confirmed elections eid s))"
  using assms by (simp add: deleteElection_def Let_def)

lemma foldl_deleteElection_loaded:
  assumes "elections = loadElections s"
  shows "snd (foldl (\<lambda>(s, elections) (E, confirmed, eid). deleteElection E confirmed elections eid s)
               (s, elections) clicks) =
         loadElections (fst (foldl (\<lambda>(s, elections) (E, confirmed, eid).
               deleteElection E confirmed elections eid s) (s, elections) clicks))"
  using assms
proof (induction clicks arbitrary: s elections)
  case Nil
  then show ?case by simp
next
  case (Cons click clicks)
  obtain E confirmed eid where click: "click = (E, confirmed, eid)" by (cases click) auto
  obtain s1 el1 where step: "deleteElection E confirmed elections eid s = (s1, el1)"
    by (cases "deleteElection E confirmed elections eid s") auto
  with deleteElection_reloads [OF Cons.prems, of E confirmed eid] have "el1 = loadElections s1"
    by simp
  from Cons.IH [OF this] show ?case by (simp add: click step)
qed

lemma ElectionManagement_run_loaded:
  "ElectionManagement_run clicks s0 = (s, elections) \<Longrightarrow> elections = loadElections s"
  using foldl_deleteElection_loaded [of "ElectionManagement_mount s0" s0 clicks]
  by (simp add: ElectionManagement_run_def ElectionManagement_mount_def)

text \<open>
  C8. In every state the mounted component can reach, a confirmed deletion removes the
  election and its votes and nothing else from the two collections: looking up any
  other election, or the votes of any other election, gives what it gave before. Users
  and sessions are untouched, and the component's copy is again the stored collection.
\<close>

theorem deleteElection_frame:
  assumes reached: "ElectionManagement_run clicks s0 = (s, elections)"
    and result: "deleteElection E True elections eid s = (s', elections')"
  shows "getElections s' = filter (\<lambda>e. election_id e \<noteq> eid) (getElections s) \<and>
         getVotes s' = filter (\<lambda>v. electionId v \<noteq> eid) (getVotes s) \<and>
         getElectionById s' eid = None \<and>
         getVotesByElection s' eid = [] \<and>
         (\<forall>other. other \<noteq> eid \<longrightarrow>
            getElectionById s' other = getElectionById s other \<and>
            getVotesByElection s' other = getVotesByElection s other) \<and>
         getUsers s' = getUsers s \<and>
         getVotingSessions s' = getVotingSessions s \<and>
         elections' = loadElections s'"
  using ElectionManagement_run_loaded [OF reached] result
  by (rule deleteElection_loaded_frame)

lemma tally_store_eval:
  "getElections tally_store = [example_election, other_election]"
  "getVotes tally_store =
     [example_vote ''e1'' ''p1'' ''cA'' ''t1'', example_vote ''e1'' ''p1'' ''cB'' ''t2'',
      example_vote ''e2'' ''q1'' ''cZ'' ''t9'', example_vote ''e1'' ''p1'' ''cA'' ''t3'',
      example_vote ''e1'' ''p3'' ''cF'' ''t1'', example_vote ''e1'' ''p1'' ''cA'' ''t4'']"
  "getUsers tally_store = [example_voter]"
  by (simp_all add: tally_store_def example_store_def store_defs)

theorem deleteElection_frame_witness:
  "ElectionManagement_run [(example_env, False, ''e2'')] tally_store =
     (tally_store, [example_election, other_election]) \<and>
   getElections (fst (deleteElection example_env True [example_election, other_election]
                        ''e1'' tally_store)) = [other_election] \<and>
   map (\<lambda>v. (electionId v, candidateId v))
     (getVotes (fst (deleteElection example_env True [example_election, other_election]
                       ''e1'' tally_store))) = [(''e2'', ''cZ'')] \<and>
   getElectionById (fst (deleteElection example_env True [example_election, other_election]
                           ''e1'' tally_store)) ''e2'' = Some other_election \<and>
   snd (deleteElection example_env True [example_election, other_election] ''e1''
          tally_store) = [other_election]"
proof -
  have ids: "election_id example_election = ''e1''" "election_id other_election = ''e2''"
    by (simp_all add: example_election_def other_election_def)
  have reached:
    "ElectionManagement_run [(example_env, False, ''e2'')] tally_store =
       (tally_store, [example_election, other_election])"
    by (simp add: ElectionManagement_run_def ElectionManagement_mount_def loadElections_def
        deleteElection_def tally_store_eval)
  from deleteElection_frame [OF reached prod.collapse [symmetric], of example_env "''e1''"]
    reached
  show ?thesis
    by (simp add: tally_store_eval ids getElectionById_def example_vote_def loadElections_def)
qed

section \<open>Rounding to binary64\<close>

lemma bitlen_powi:
  assumes "0 < p"
  shows "(2::rat) powi (bitlen p - 1) \<le> of_int p" and "of_int p < (2::rat) powi bitlen p"
proof -
  from bitlen_bounds [OF assms]
  have lo: "2 ^ nat (bitlen p - 1) \<le> p" and hi: "p < 2 ^ nat (bitlen p)" by simp_all
  have pos: "1 \<le> bitlen p" using assms by (simp add: bitlen_alt_def)
  have "(of_int (2 ^ nat (bitlen p - 1)) :: rat) \<le> of_int p" using lo by (simp only: of_int_le_iff)
  then show "(2::rat) powi (bitlen p - 1) \<le> of_int p"
    using pos by (simp add: power_int_def)
  have "(of_int p :: rat) < of_int (2 ^ nat (bitlen p))" using hi by (simp only: of_int_less_iff)
  then show "of_int p < (2::rat) powi bitlen p"
    using pos by (simp add: power_int_def)
qed

lemma binary_exponent_bounds:
  assumes "0 < x"
  shows "2 powi binary_exponent x \<le> x" and "x < 2 powi (binary_exponent x + 1)"
proof -
  obtain p q where pq: "quotient_of x = (p, q)" by (cases "quotient_of x") auto
  then have q: "0 < q" by (rule quotient_of_denom_pos)
  from pq have x: "x = of_int p / of_int q" by (rule quotient_of_div)
  with assms q have p: "0 < p" by (simp add: zero_less_divide_iff)
  define e where "e = bitlen p - bitlen q"
  have "x < 2 powi bitlen p / 2 powi (bitlen q - 1)"
    unfolding x using bitlen_powi [OF p] bitlen_powi [OF q] p q
    by (intro frac_less) simp_all
  also have "\<dots> = 2 powi (e + 1)"
    by (simp add: e_def power_int_diff power_int_add)
  finally have upper: "x < 2 powi (e + 1)" .
  have "2 powi (bitlen p - 1) / 2 powi bitlen q < x"
    unfolding x using bitlen_powi [OF p] bitlen_powi [OF q] p q
    by (intro frac_less2) simp_all
  moreover have "2 powi (bitlen p - 1) / 2 powi bitlen q = (2::rat) powi (e - 1)"
    by (simp add: e_def power_int_diff)
  ultimately have lower: "2 powi (e - 1) < x" by simp
  have be: "binary_exponent x = (if 2 powi e \<le> x then e else e - 1)"
    by (simp add: binary_exponent_def pq e_def Let_def)
  show "2 powi binary_exponent x \<le> x" using lower by (simp add: be)
  show "x < 2 powi (binary_exponent x + 1)" using upper by (auto simp: be not_le)
qed

lemma round_double_pos:
  "0 < x \<Longrightarrow>
   round_double x =
     of_int (round_half_even (x / 2 powi (binary_exponent x - 52))) *
     2 powi (binary_exponent x - 52)"
  by (simp add: round_double_def Let_def)

lemma round_half_even_error: "\<bar>of_int (round_half_even y) - y\<bar> \<le> 1 / 2"
proof -
  have "of_int \<lfloor>y\<rfloor> \<le> y" "y < of_int \<lfloor>y\<rfloor> + 1" by linarith+
  then show ?thesis
    by (auto simp: round_half_even_def Let_def abs_le_iff)
qed

lemma round_double_error:
  assumes "0 < x"
  shows "\<bar>round_double x - x\<bar> \<le> x / 2 ^ 53"
proof -
  define e where "e = binary_exponent x"
  define ulp :: rat where "ulp = 2 powi (e - 52)"
  have ulp: "0 < ulp" by (simp add: ulp_def)
  have rd: "round_double x = of_int (round_half_even (x / ulp)) * ulp"
    using assms by (simp add: round_double_pos ulp_def e_def)
  have "\<bar>of_int (round_half_even (x / ulp)) - x / ulp\<bar> * ulp \<le> 1 / 2 * ulp"
    using round_half_even_error [of "x / ulp"] ulp by (intro mult_right_mono) simp_all
  moreover have "round_double x - x = (of_int (round_half_even (x / ulp)) - x / ulp) * ulp"
    using ulp unfolding rd by (simp add: field_simps)
  ultimately have "\<bar>round_double x - x\<bar> \<le> ulp / 2"
    using ulp by (simp add: abs_mult)
  also have "ulp / 2 = 2 powi e / 2 ^ 53"
    by (simp add: ulp_def power_int_diff)
  also have "\<dots> \<le> x / 2 ^ 53"
    using binary_exponent_bounds(1) [OF assms] by (simp add: e_def divide_right_mono)
  finally show ?thesis .
qed


lemma round_half_even_of_int: "round_half_even (of_int n) = n"
  by (simp add: round_half_even_def)

lemma round_double_exact:
  assumes m: "0 < m" "m < 2 ^ 53"
  shows "round_double (of_int m * 2 powi k) = of_int m * 2 powi k"
proof -
  define x :: rat where "x = of_int m * 2 powi k"
  have x: "0 < x" using m by (simp add: x_def)
  define e where "e = binary_exponent x"
  have "(of_int m :: rat) < of_int (2 ^ 53)" using m by (simp only: of_int_less_iff)
  then have "x < 2 ^ 53 * 2 powi k"
    unfolding x_def by (intro mult_strict_right_mono) simp_all
  also have "\<dots> = 2 powi (53 + k)" by (simp add: power_int_add)
  finally have "2 powi e < (2::rat) powi (53 + k)"
    using binary_exponent_bounds(1) [OF x] by (simp add: e_def)
  then have "e < 53 + k"
    using power_int_increasing [of "53 + k" e "2::rat"] by (cases "e < 53 + k") auto
  then have n: "0 \<le> k - e + 52" by simp
  have "x / 2 powi (e - 52) = of_int m * 2 powi (k - e + 52)"
    by (simp add: x_def power_int_diff power_int_add)
  also have "\<dots> = of_int (m * 2 ^ nat (k - e + 52))"
    using n by (simp add: power_int_def)
  finally have "round_half_even (x / 2 powi (e - 52)) = m * 2 ^ nat (k - e + 52)"
    by (simp only: round_half_even_of_int)
  then have "round_double x = of_int (m * 2 ^ nat (k - e + 52)) * 2 powi (e - 52)"
    using x by (simp add: round_double_pos e_def)
  also have "\<dots> = of_int m * 2 powi (k - e + 52) * 2 powi (e - 52)"
    using n by (simp add: power_int_def)
  also have "\<dots> = x"
    by (simp add: x_def power_int_diff power_int_add)
  finally show ?thesis by (simp add: x_def)
qed

lemma round_double_of_nat: "n < 2 ^ 53 \<Longrightarrow> round_double (of_nat n) = of_nat n"
proof (cases "n = 0")
  case True
  then show ?thesis by (simp add: round_double_def)
next
  case False
  assume "n < 2 ^ 53"
  with False have "0 < int n" "int n < 2 ^ 53" by simp_all
  from round_double_exact [OF this, of 0] show ?thesis by simp
qed

section \<open>Result tabulation\<close>

lemma insert_by_voteCount:
  "insert_by by_voteCount_desc x ys = insort_key (\<lambda>r. - int (voteCount r)) x ys"
  by (induction ys) (auto simp: by_voteCount_desc_def)

lemma Array_sort_voteCount:
  "Array_sort by_voteCount_desc xs = sort_key (\<lambda>r. - int (voteCount r)) xs"
proof -
  have "insert_by by_voteCount_desc = insort_key (\<lambda>r. - int (voteCount r))"
    by (intro ext) (rule insert_by_voteCount)
  then show ?thesis by (simp add: Array_sort_def sort_key_def)
qed

lemma Array_sort_descending:
  "sorted_wrt (\<lambda>a b. voteCount b \<le> voteCount a) (Array_sort by_voteCount_desc xs)"
proof -
  have "sorted (map (\<lambda>r. - int (voteCount r)) (Array_sort by_voteCount_desc xs))"
    unfolding Array_sort_voteCount by (rule sorted_sort_key)
  then show ?thesis by (simp add: sorted_map)
qed

lemma Array_sort_stable:
  "filter (\<lambda>r. voteCount r = k) (Array_sort by_voteCount_desc xs) =
   filter (\<lambda>r. voteCount r = k) xs"
proof -
  have "filter (\<lambda>r. - int (voteCount r) = - int k) (sort_key (\<lambda>r. - int (voteCount r)) xs) =
        filter (\<lambda>r. - int (voteCount r) = - int k) xs"
    by (rule sort_key_stable)
  then show ?thesis by (simp add: Array_sort_voteCount)
qed

lemma mset_Array_sort: "mset (Array_sort by_voteCount_desc xs) = mset xs"
  by (simp add: Array_sort_voteCount)

lemma set_Array_sort: "set (Array_sort by_voteCount_desc xs) = set xs"
  by (simp add: Array_sort_voteCount)

lemma winner_flags_tail:
  "0 < n \<Longrightarrow> map (\<lambda>(index, candidate). isWinner index candidate) (enumerate n rs) =
     replicate (length rs) False"
  by (induction rs arbitrary: n) (simp_all add: isWinner_def)

lemma winner_flags_eq:
  "winner_flags pr =
     (case result_candidates pr of
        [] \<Rightarrow> []
      | r # rs \<Rightarrow> (0 < voteCount r) # replicate (length rs) False)"
proof (cases "result_candidates pr")
  case Nil
  then show ?thesis by (simp add: winner_flags_def)
next
  case (Cons r rs)
  have "map (\<lambda>(index, candidate). isWinner index candidate) (enumerate (Suc 0) rs) =
        replicate (length rs) False"
    by (rule winner_flags_tail) simp
  with Cons show ?thesis by (simp add: winner_flags_def isWinner_def)
qed

lemma percentage_candidateResult:
  "percentage (candidateResult pv candidate) =
     (if 0 < length pv
      then times_100 (divide_counts (voteCount (candidateResult pv candidate)) (length pv))
      else Num 0)"
  by (simp add: candidateResult_def Let_def)

lemma candidateResult_row:
  "candidateResult pv c =
     \<lparr>result_candidateId = candidate_id c, candidateName = candidate_name c,
      voteCount = length (filter (\<lambda>v. candidateId v = candidate_id c) pv),
      percentage =
        (if length pv = 0 then Num 0
         else Num (round_double
                (round_double
                   (of_nat (length (filter (\<lambda>v. candidateId v = candidate_id c) pv)) /
                    of_nat (length pv)) * 100)))\<rparr>"
  by (cases "length pv = 0") (simp_all add: candidateResult_def Let_def divide_counts_def)

text \<open>
  The percentage differs from the exact \<open>100 c / t\<close> by at most the two roundings.
\<close>

lemma double_percentage_error:
  assumes "0 < t"
  shows "\<bar>round_double (round_double (of_nat c / of_nat t) * 100) - 100 * of_nat c / of_nat t\<bar>
         \<le> 100 * of_nat c / of_nat t / 2 ^ 51"
proof (cases "c = 0")
  case True
  then show ?thesis by (simp add: round_double_def)
next
  case False
  define x :: rat where "x = of_nat c / of_nat t"
  define y where "y = round_double x"
  define q where "q = round_double (y * 100)"
  define a where "a = x / 2 ^ 53"
  have x: "0 < x" using assms False by (simp add: x_def)
  have a: "0 < a" using x by (simp add: a_def)
  have y_err: "\<bar>y - x\<bar> \<le> a" unfolding y_def a_def using x by (rule round_double_error)
  have "a < x" using x by (simp add: a_def field_simps)
  with y_err have y: "0 < y" by linarith
  then have "\<bar>q - y * 100\<bar> \<le> y * 100 / 2 ^ 53"
    unfolding q_def by (intro round_double_error) simp
  moreover have "y / 2 ^ 53 \<le> 2 * a"
  proof -
    have "y \<le> x + a" using y_err by linarith
    also have "\<dots> \<le> 2 * x" using \<open>a < x\<close> by simp
    finally have "y / 2 ^ 53 \<le> 2 * x / 2 ^ 53" by (simp add: divide_right_mono)
    then show ?thesis by (simp add: a_def)
  qed
  ultimately have "\<bar>q - y * 100\<bar> \<le> 200 * a" by (simp add: field_simps)
  with y_err have "\<bar>q - 100 * x\<bar> \<le> 400 * a" using a by linarith
  also have "400 * a = 100 * x / 2 ^ 51" by (simp add: a_def)
  finally show ?thesis by (simp add: q_def y_def x_def)
qed

text \<open>The percentages of the examples, computed.\<close>

lemma round_double_values:
  "round_double 0 = 0"
  "round_double 1 = 1"
  "round_double 100 = 100"
  "round_double (round_double (3 / 4) * 100) = 75"
  "round_double (round_double (1 / 4) * 100) = 25"
  "round_double (round_double (1 / 3) * 100) = 2345624805922133 / 70368744177664"
  by code_simp+

lemma result_positions_calculateResults:
  "result_positions (calculateResults L election s) =
     map (positionResult (getVotesByElection s (election_id election))) (positions election)"
  by (simp add: calculateResults_def Let_def)

lemma positionResult_fields:
  "result_positionId (positionResult ev position) = position_id position"
  "positionTitle (positionResult ev position) = position_title position"
  "position_totalVotes (positionResult ev position) =
     length (filter (\<lambda>v. positionId v = position_id position) ev)"
  "result_candidates (positionResult ev position) =
     Array_sort by_voteCount_desc
       (map (candidateResult (filter (\<lambda>v. positionId v = position_id position) ev))
            (candidates position))"
  by (simp_all add: positionResult_def Let_def)

lemma example_results_eval:
  "result_positions (example_results L) =
     [\<lparr>result_positionId = ''p1'', positionTitle = ''President'',
       result_candidates =
         [\<lparr>result_candidateId = ''cA'', candidateName = ''A'', voteCount = 3,
           percentage = Num 75\<rparr>,
          \<lparr>result_candidateId = ''cB'', candidateName = ''B'', voteCount = 1,
           percentage = Num 25\<rparr>,
          \<lparr>result_candidateId = ''cC'', candidateName = ''C'', voteCount = 0,
           percentage = Num 0\<rparr>],
       position_totalVotes = 4\<rparr>,
      \<lparr>result_positionId = ''p2'', positionTitle = ''Secretary'',
       result_candidates =
         [\<lparr>result_candidateId = ''cD'', candidateName = ''D'', voteCount = 0,
           percentage = Num 0\<rparr>,
          \<lparr>result_candidateId = ''cE'', candidateName = ''E'', voteCount = 0,
           percentage = Num 0\<rparr>],
       position_totalVotes = 0\<rparr>,
      \<lparr>result_positionId = ''p3'', positionTitle = ''Treasurer'',
       result_candidates =
         [\<lparr>result_candidateId = ''cF'', candidateName = ''F'', voteCount = 1,
           percentage = Num 100\<rparr>,
          \<lparr>result_candidateId = ''cG'', candidateName = ''G'', voteCount = 0,
           percentage = Num 0\<rparr>],
       position_totalVotes = 1\<rparr>]"
  by (simp add: example_results_def result_positions_calculateResults positionResult_def
      candidateResult_def Let_def getVotesByElection_def tally_store_eval example_vote_def
      example_election_def president_def secretary_def treasurer_def example_candidate_def
      Array_sort_def by_voteCount_desc_def divide_counts_def round_double_values)

lemma full_tally_store_eval:
  "getVotes full_tally_store =
     [example_vote ''e1'' ''p1'' ''cA'' ''t1'', example_vote ''e1'' ''p1'' ''cB'' ''t2'',
      example_vote ''e2'' ''q1'' ''cZ'' ''t9'', example_vote ''e1'' ''p1'' ''cA'' ''t3'',
      example_vote ''e1'' ''p3'' ''cF'' ''t1'', example_vote ''e1'' ''p1'' ''cA'' ''t4'',
      example_vote ''e1'' ''p4'' ''cI'' ''t1'', example_vote ''e1'' ''p4'' ''cJ'' ''t2'',
      example_vote ''e1'' ''p4'' ''cH'' ''t3'']"
  using tally_store_eval(2) by (simp add: full_tally_store_def getVotes_def)

lemma full_tally_election_votes:
  "getVotesByElection full_tally_store ''e1'' =
     [example_vote ''e1'' ''p1'' ''cA'' ''t1'', example_vote ''e1'' ''p1'' ''cB'' ''t2'',
      example_vote ''e1'' ''p1'' ''cA'' ''t3'', example_vote ''e1'' ''p3'' ''cF'' ''t1'',
      example_vote ''e1'' ''p1'' ''cA'' ''t4'', example_vote ''e1'' ''p4'' ''cI'' ''t1'',
      example_vote ''e1'' ''p4'' ''cJ'' ''t2'', example_vote ''e1'' ''p4'' ''cH'' ''t3'']"
  by (simp add: getVotesByElection_def full_tally_store_eval example_vote_def)

lemma tally_president:
  "positionResult (getVotesByElection full_tally_store ''e1'') president =
     \<lparr>result_positionId = ''p1'', positionTitle = ''President'',
      result_candidates =
        [\<lparr>result_candidateId = ''cA'', candidateName = ''A'', voteCount = 3,
          percentage = Num 75\<rparr>,
         \<lparr>result_candidateId = ''cB'', candidateName = ''B'', voteCount = 1,
          percentage = Num 25\<rparr>,
         \<lparr>result_candidateId = ''cC'', candidateName = ''C'', voteCount = 0,
          percentage = Num 0\<rparr>],
      position_totalVotes = 4\<rparr>"
  by (simp add: full_tally_election_votes positionResult_def candidateResult_def Let_def
      example_vote_def president_def example_candidate_def Array_sort_def by_voteCount_desc_def
      divide_counts_def round_double_values)

lemma tally_secretary:
  "positionResult (getVotesByElection full_tally_store ''e1'') secretary =
     \<lparr>result_positionId = ''p2'', positionTitle = ''Secretary'',
      result_candidates =
        [\<lparr>result_candidateId = ''cD'', candidateName = ''D'', voteCount = 0,
          percentage = Num 0\<rparr>,
         \<lparr>result_candidateId = ''cE'', candidateName = ''E'', voteCount = 0,
          percentage = Num 0\<rparr>],
      position_totalVotes = 0\<rparr>"
  by (simp add: full_tally_election_votes positionResult_def candidateResult_def Let_def
      example_vote_def secretary_def example_candidate_def Array_sort_def by_voteCount_desc_def)

lemma tally_treasurer:
  "positionResult (getVotesByElection full_tally_store ''e1'') treasurer =
     \<lparr>result_positionId = ''p3'', positionTitle = ''Treasurer'',
      result_candidates =
        [\<lparr>result_candidateId = ''cF'', candidateName = ''F'', voteCount = 1,
          percentage = Num 100\<rparr>,
         \<lparr>result_candidateId = ''cG'', candidateName = ''G'', voteCount = 0,
          percentage = Num 0\<rparr>],
      position_totalVotes = 1\<rparr>"
  by (simp add: full_tally_election_votes positionResult_def candidateResult_def Let_def
      example_vote_def treasurer_def example_candidate_def Array_sort_def by_voteCount_desc_def
      divide_counts_def round_double_values)

text \<open>
  One vote each out of three: \<open>1 / 3\<close> rounds to \<open>6004799503160661 / 2\<^sup>5\<^sup>4\<close>, and a hundred
  times that rounds to \<open>2345624805922133 / 2\<^sup>4\<^sup>6\<close>, the number printed as
  \<^verbatim>\<open>33.33333333333333\<close>. The votes came in the order I, J, H; the rows stay in the
  candidates' order H, I, J.
\<close>

lemma tally_auditor:
  "positionResult (getVotesByElection full_tally_store ''e1'') auditor =
     \<lparr>result_positionId = ''p4'', positionTitle = ''Auditor'',
      result_candidates =
        [\<lparr>result_candidateId = ''cH'', candidateName = ''H'', voteCount = 1,
          percentage = Num (2345624805922133 / 70368744177664)\<rparr>,
         \<lparr>result_candidateId = ''cI'', candidateName = ''I'', voteCount = 1,
          percentage = Num (2345624805922133 / 70368744177664)\<rparr>,
         \<lparr>result_candidateId = ''cJ'', candidateName = ''J'', voteCount = 1,
          percentage = Num (2345624805922133 / 70368744177664)\<rparr>],
      position_totalVotes = 3\<rparr>"
  by (simp add: full_tally_election_votes positionResult_def candidateResult_def Let_def
      example_vote_def auditor_def example_candidate_def Array_sort_def by_voteCount_desc_def
      divide_counts_def round_double_values)

lemma tally_results_eval:
  "result_positions (tally_results L) =
     map (positionResult (getVotesByElection full_tally_store ''e1''))
       [president, secretary, treasurer, auditor]"
  by (simp add: tally_results_def result_positions_calculateResults tally_election_def
      example_election_def)

text \<open>
  C3. The result has one position result for each position of the election, in the
  election's order. The \<open>i\<close>-th one carries the position's id and title; its total is
  the number of the election's votes for that position; its rows are one row per
  candidate, holding the candidate's id and name, the number of the position's votes
  for the candidate, and the percentage: 0 when the position has no vote, and otherwise
  the count divided by the position's own total and multiplied by 100, each operation
  rounded to binary64, which is within \<open>2\<^sup>-\<^sup>5\<^sup>1\<close> (relative) of the exact
  \<open>100 \<sqdot> count / total\<close>. The rows are in descending order of count, and the rows of
  each count are in the candidates' order. Only the first row can be tagged winner, and
  it is tagged exactly when its count is positive, so a position whose counts are all
  zero has no winner.
\<close>

theorem calculateResults_tabulation:
  "length (result_positions (calculateResults L election s)) = length (positions election) \<and>
   (\<forall>i < length (positions election).
      \<exists>position pr pv rows.
        position = positions election ! i \<and>
        pr = result_positions (calculateResults L election s) ! i \<and>
        pv = filter (\<lambda>v. electionId v = election_id election \<and>
                          positionId v = position_id position) (getVotes s) \<and>
        rows =
          map (\<lambda>c.
                \<lparr>result_candidateId = candidate_id c, candidateName = candidate_name c,
                 voteCount = length (filter (\<lambda>v. candidateId v = candidate_id c) pv),
                 percentage =
                   (if length pv = 0 then Num 0
                    else Num (round_double
                           (round_double
                              (of_nat (length (filter (\<lambda>v. candidateId v = candidate_id c) pv)) /
                               of_nat (length pv)) * 100)))\<rparr>)
            (candidates position) \<and>
        result_positionId pr = position_id position \<and>
        positionTitle pr = position_title position \<and>
        position_totalVotes pr = length pv \<and>
        mset (result_candidates pr) = mset rows \<and>
        sorted_wrt (\<lambda>a b. voteCount b \<le> voteCount a) (result_candidates pr) \<and>
        (\<forall>k. filter (\<lambda>r. voteCount r = k) (result_candidates pr) =
              filter (\<lambda>r. voteCount r = k) rows) \<and>
        (\<forall>r \<in> set (result_candidates pr).
           0 < length pv \<longrightarrow>
           (\<exists>q. percentage r = Num q \<and>
                \<bar>q - 100 * of_nat (voteCount r) / of_nat (length pv)\<bar>
                  \<le> 100 * of_nat (voteCount r) / of_nat (length pv) / 2 ^ 51)) \<and>
        winner_flags pr =
          (case result_candidates pr of
             [] \<Rightarrow> []
           | r # rs \<Rightarrow> (0 < voteCount r) # replicate (length rs) False) \<and>
        ((\<forall>r \<in> set (result_candidates pr). voteCount r = 0) \<longrightarrow>
           True \<notin> set (winner_flags pr)))"
proof (intro conjI allI impI)
  show "length (result_positions (calculateResults L election s)) = length (positions election)"
    by (simp add: result_positions_calculateResults)
next
  fix i
  assume i: "i < length (positions election)"
  define position where "position = positions election ! i"
  define pr where "pr = result_positions (calculateResults L election s) ! i"
  define pv where
    "pv = filter (\<lambda>v. electionId v = election_id election \<and>
                       positionId v = position_id position) (getVotes s)"
  define rows where
    "rows =
       map (\<lambda>c.
             \<lparr>result_candidateId = candidate_id c, candidateName = candidate_name c,
              voteCount = length (filter (\<lambda>v. candidateId v = candidate_id c) pv),
              percentage =
                (if length pv = 0 then Num 0
                 else Num (round_double
                        (round_double
                           (of_nat (length (filter (\<lambda>v. candidateId v = candidate_id c) pv)) /
                            of_nat (length pv)) * 100)))\<rparr>)
         (candidates position)"
  define ev where "ev = getVotesByElection s (election_id election)"
  have pr_eq: "pr = positionResult ev position"
    using i by (simp add: pr_def position_def ev_def result_positions_calculateResults)
  have pv_eq: "pv = filter (\<lambda>v. positionId v = position_id position) ev"
    by (simp add: pv_def ev_def getVotesByElection_def)
  have rows_eq: "rows = map (candidateResult pv) (candidates position)"
    unfolding rows_def by (simp add: candidateResult_row)
  have cands: "result_candidates pr = Array_sort by_voteCount_desc rows"
    unfolding pr_eq rows_eq pv_eq by (simp add: positionResult_fields)
  have perc: "\<exists>q. percentage r = Num q \<and>
                \<bar>q - 100 * of_nat (voteCount r) / of_nat (length pv)\<bar>
                  \<le> 100 * of_nat (voteCount r) / of_nat (length pv) / 2 ^ 51"
    if r: "r \<in> set (result_candidates pr)" and t: "0 < length pv" for r
  proof -
    from r obtain c where "r = candidateResult pv c"
      unfolding cands set_Array_sort rows_eq by auto
    then have "percentage r =
        Num (round_double (round_double (of_nat (voteCount r) / of_nat (length pv)) * 100))"
      using t by (simp add: candidateResult_row)
    with double_percentage_error [OF t, of "voteCount r"] show ?thesis by blast
  qed
  have zero: "True \<notin> set (winner_flags pr)"
    if "\<forall>r \<in> set (result_candidates pr). voteCount r = 0"
  proof (cases "result_candidates pr")
    case Nil
    then show ?thesis by (simp add: winner_flags_eq)
  next
    case (Cons r rs)
    with that have "voteCount r = 0" by simp
    with Cons show ?thesis by (simp add: winner_flags_eq)
  qed
  have main:
    "position = positions election ! i \<and>
     pr = result_positions (calculateResults L election s) ! i \<and>
     pv = filter (\<lambda>v. electionId v = election_id election \<and>
                       positionId v = position_id position) (getVotes s) \<and>
     rows =
       map (\<lambda>c.
             \<lparr>result_candidateId = candidate_id c, candidateName = candidate_name c,
              voteCount = length (filter (\<lambda>v. candidateId v = candidate_id c) pv),
              percentage =
                (if length pv = 0 then Num 0
                 else Num (round_double
                        (round_double
                           (of_nat (length (filter (\<lambda>v. candidateId v = candidate_id c) pv)) /
                            of_nat (length pv)) * 100)))\<rparr>)
         (candidates position) \<and>
     result_positionId pr = position_id position \<and>
     positionTitle pr = position_title position \<and>
     position_totalVotes pr = length pv \<and>
     mset (result_candidates pr) = mset rows \<and>
     sorted_wrt (\<lambda>a b. voteCount b \<le> voteCount a) (result_candidates pr) \<and>
     (\<forall>k. filter (\<lambda>r. voteCount r = k) (result_candidates pr) =
           filter (\<lambda>r. voteCount r = k) rows) \<and>
     (\<forall>r \<in> set (result_candidates pr).
        0 < length pv \<longrightarrow>
        (\<exists>q. percentage r = Num q \<and>
             \<bar>q - 100 * of_nat (voteCount r) / of_nat (length pv)\<bar>
               \<le> 100 * of_nat (voteCount r) / of_nat (length pv) / 2 ^ 51)) \<and>
     winner_flags pr =
       (case result_candidates pr of
          [] \<Rightarrow> []
        | r # rs \<Rightarrow> (0 < voteCount r) # replicate (length rs) False) \<and>
     ((\<forall>r \<in> set (result_candidates pr). voteCount r = 0) \<longrightarrow>
        True \<notin> set (winner_flags pr))"
  proof (intro conjI)
    show "position = positions election ! i" by (fact position_def)
    show "pr = result_positions (calculateResults L election s) ! i" by (fact pr_def)
    show "pv = filter (\<lambda>v. electionId v = election_id election \<and>
                       positionId v = position_id position) (getVotes s)"
      by (fact pv_def)
    show "rows =
       map (\<lambda>c.
             \<lparr>result_candidateId = candidate_id c, candidateName = candidate_name c,
              voteCount = length (filter (\<lambda>v. candidateId v = candidate_id c) pv),
              percentage =
                (if length pv = 0 then Num 0
                 else Num (round_double
                        (round_double
                           (of_nat (length (filter (\<lambda>v. candidateId v = candidate_id c) pv)) /
                            of_nat (length pv)) * 100)))\<rparr>)
         (candidates position)"
      by (fact rows_def)
    show "result_positionId pr = position_id position"
      by (simp add: pr_eq positionResult_fields)
    show "positionTitle pr = position_title position"
      by (simp add: pr_eq positionResult_fields)
    show "position_totalVotes pr = length pv"
      by (simp add: pr_eq pv_eq positionResult_fields)
    show "mset (result_candidates pr) = mset rows"
      unfolding cands by (rule mset_Array_sort)
    show "sorted_wrt (\<lambda>a b. voteCount b \<le> voteCount a) (result_candidates pr)"
      unfolding cands by (rule Array_sort_descending)
    show "\<forall>k. filter (\<lambda>r. voteCount r = k) (result_candidates pr) =
              filter (\<lambda>r. voteCount r = k) rows"
      unfolding cands by (simp only: Array_sort_stable) simp
    show "\<forall>r \<in> set (result_candidates pr).
        0 < length pv \<longrightarrow>
        (\<exists>q. percentage r = Num q \<and>
             \<bar>q - 100 * of_nat (voteCount r) / of_nat (length pv)\<bar>
               \<le> 100 * of_nat (voteCount r) / of_nat (length pv) / 2 ^ 51)"
      using perc by blast
    show "winner_flags pr =
       (case result_candidates pr of
          [] \<Rightarrow> []
        | r # rs \<Rightarrow> (0 < voteCount r) # replicate (length rs) False)"
      by (rule winner_flags_eq)
    show "(\<forall>r \<in> set (result_candidates pr). voteCount r = 0) \<longrightarrow>
        True \<notin> set (winner_flags pr)"
      using zero by blast
  qed
  show "\<exists>position pr pv rows.
        position = positions election ! i \<and>
        pr = result_positions (calculateResults L election s) ! i \<and>
        pv = filter (\<lambda>v. electionId v = election_id election \<and>
                          positionId v = position_id position) (getVotes s) \<and>
        rows =
          map (\<lambda>c.
                \<lparr>result_candidateId = candidate_id c, candidateName = candidate_name c,
                 voteCount = length (filter (\<lambda>v. candidateId v = candidate_id c) pv),
                 percentage =
                   (if length pv = 0 then Num 0
                    else Num (round_double
                           (round_double
                              (of_nat (length (filter (\<lambda>v. candidateId v = candidate_id c) pv)) /
                               of_nat (length pv)) * 100)))\<rparr>)
            (candidates position) \<and>
        result_positionId pr = position_id position \<and>
        positionTitle pr = position_title position \<and>
        position_totalVotes pr = length pv \<and>
        mset (result_candidates pr) = mset rows \<and>
        sorted_wrt (\<lambda>a b. voteCount b \<le> voteCount a) (result_candidates pr) \<and>
        (\<forall>k. filter (\<lambda>r. voteCount r = k) (result_candidates pr) =
              filter (\<lambda>r. voteCount r = k) rows) \<and>
        (\<forall>r \<in> set (result_candidates pr).
           0 < length pv \<longrightarrow>
           (\<exists>q. percentage r = Num q \<and>
                \<bar>q - 100 * of_nat (voteCount r) / of_nat (length pv)\<bar>
                  \<le> 100 * of_nat (voteCount r) / of_nat (length pv) / 2 ^ 51)) \<and>
        winner_flags pr =
          (case result_candidates pr of
             [] \<Rightarrow> []
           | r # rs \<Rightarrow> (0 < voteCount r) # replicate (length rs) False) \<and>
        ((\<forall>r \<in> set (result_candidates pr). voteCount r = 0) \<longrightarrow>
           True \<notin> set (winner_flags pr))"
    by (intro exI) (rule main)
qed

text \<open>
  The tally election has four positions and eight votes, and one vote of another
  election in between. President: A 3, B 1, C 0 out of 4, so 75, 25 and 0 percent and A
  the winner, though the candidates are listed B, C, A. Secretary: no vote, no winner.
  Treasurer: the only vote, 100 percent. Auditor: a three-way tie, the rows in the
  candidates' order, the first one tagged.
\<close>

theorem calculateResults_tabulation_witness:
  "\<forall>L. length (positions tally_election) = 4 \<and>
       length (result_positions (tally_results L)) = 4 \<and>
       length (getVotesByElection full_tally_store ''e1'') = 8 \<and>
       map result_positionId (result_positions (tally_results L)) =
         [''p1'', ''p2'', ''p3'', ''p4''] \<and>
       map position_totalVotes (result_positions (tally_results L)) = [4, 0, 1, 3] \<and>
       map (\<lambda>pr. map candidateName (result_candidates pr)) (result_positions (tally_results L)) =
         [[''A'', ''B'', ''C''], [''D'', ''E''], [''F'', ''G''], [''H'', ''I'', ''J'']] \<and>
       map (\<lambda>pr. map voteCount (result_candidates pr)) (result_positions (tally_results L)) =
         [[3, 1, 0], [0, 0], [1, 0], [1, 1, 1]] \<and>
       map (\<lambda>pr. map percentage (result_candidates pr)) (result_positions (tally_results L)) =
         [[Num 75, Num 25, Num 0], [Num 0, Num 0], [Num 100, Num 0],
          [Num (2345624805922133 / 70368744177664), Num (2345624805922133 / 70368744177664),
           Num (2345624805922133 / 70368744177664)]] \<and>
       map winner_flags (result_positions (tally_results L)) =
         [[True, False, False], [False, False], [True, False], [True, False, False]]"
proof
  fix L
  note tabulation = calculateResults_tabulation [of L tally_election full_tally_store]
  have four: "length (positions tally_election) = 4"
    by (simp add: tally_election_def)
  from tabulation four have len: "length (result_positions (tally_results L)) = 4"
    by (simp only: tally_results_def)
  have "(3::nat) < length (positions tally_election)" by (simp add: four)
  with tabulation obtain pv where
    pv: "pv = filter (\<lambda>v. electionId v = election_id tally_election \<and>
                          positionId v = position_id (positions tally_election ! 3))
               (getVotes full_tally_store)"
    and total: "position_totalVotes (result_positions (tally_results L) ! 3) = length pv"
    unfolding tally_results_def by blast
  have "length pv = 3"
    unfolding pv
    by (simp add: full_tally_store_eval example_vote_def tally_election_def auditor_def
        example_election_def)
  with total have auditor_total: "position_totalVotes (result_positions (tally_results L) ! 3) = 3"
    by simp
  have votes: "length (getVotesByElection full_tally_store ''e1'') = 8"
    by (simp add: full_tally_election_votes)
  have positions:
    "result_positions (tally_results L) =
       map (positionResult (getVotesByElection full_tally_store ''e1''))
         [president, secretary, treasurer, auditor]"
    by (rule tally_results_eval)
  from four len votes auditor_total
  show "length (positions tally_election) = 4 \<and>
       length (result_positions (tally_results L)) = 4 \<and>
       length (getVotesByElection full_tally_store ''e1'') = 8 \<and>
       map result_positionId (result_positions (tally_results L)) =
         [''p1'', ''p2'', ''p3'', ''p4''] \<and>
       map position_totalVotes (result_positions (tally_results L)) = [4, 0, 1, 3] \<and>
       map (\<lambda>pr. map candidateName (result_candidates pr)) (result_positions (tally_results L)) =
         [[''A'', ''B'', ''C''], [''D'', ''E''], [''F'', ''G''], [''H'', ''I'', ''J'']] \<and>
       map (\<lambda>pr. map voteCount (result_candidates pr)) (result_positions (tally_results L)) =
         [[3, 1, 0], [0, 0], [1, 0], [1, 1, 1]] \<and>
       map (\<lambda>pr. map percentage (result_candidates pr)) (result_positions (tally_results L)) =
         [[Num 75, Num 25, Num 0], [Num 0, Num 0], [Num 100, Num 0],
          [Num (2345624805922133 / 70368744177664), Num (2345624805922133 / 70368744177664),
           Num (2345624805922133 / 70368744177664)]] \<and>
       map winner_flags (result_positions (tally_results L)) =
         [[True, False, False], [False, False], [True, False], [True, False, False]]"
    unfolding positions
    by (simp add: tally_president tally_secretary tally_treasurer tally_auditor winner_flags_eq)
qed

lemma percentage_defined:
  "percentage (candidateResult pv candidate) \<noteq> NaN \<and>
   percentage (candidateResult pv candidate) \<noteq> PosInfinity"
  by (cases "length pv = 0") (simp_all add: percentage_candidateResult divide_counts_def)

text \<open>
  C10. No percentage of the result is \<^verbatim>\<open>NaN\<close> or \<^verbatim>\<open>Infinity\<close>: every division is
  guarded. A position without votes has percentage 0 in every row, and without
  voter-role users the turnout is 0.
\<close>

theorem calculateResults_no_division_by_zero:
  "(\<forall>pr \<in> set (result_positions (calculateResults L election s)).
      \<forall>r \<in> set (result_candidates pr).
        (position_totalVotes pr = 0 \<longrightarrow> percentage r = Num 0) \<and>
        percentage r \<noteq> NaN \<and> percentage r \<noteq> PosInfinity) \<and>
   (length (filter (\<lambda>u. role u = Voter) (getUsers s)) = 0 \<longrightarrow>
      turnoutPercentage (calculateResults L election s) = Num 0) \<and>
   turnoutPercentage (calculateResults L election s) \<noteq> NaN \<and>
   turnoutPercentage (calculateResults L election s) \<noteq> PosInfinity"
proof (intro conjI ballI impI)
  fix pr r
  assume pr: "pr \<in> set (result_positions (calculateResults L election s))"
    and r: "r \<in> set (result_candidates pr)"
  from pr obtain position where
    pr_eq: "pr = positionResult (getVotesByElection s (election_id election)) position"
    unfolding result_positions_calculateResults by auto
  define pv where "pv = filter (\<lambda>v. positionId v = position_id position)
                          (getVotesByElection s (election_id election))"
  from r obtain candidate where r_eq: "r = candidateResult pv candidate"
    unfolding pr_eq positionResult_fields set_Array_sort pv_def by auto
  show "percentage r \<noteq> NaN" "percentage r \<noteq> PosInfinity"
    unfolding r_eq using percentage_defined by blast+
  assume "position_totalVotes pr = 0"
  then have "length pv = 0" unfolding pr_eq positionResult_fields pv_def .
  then show "percentage r = Num 0" unfolding r_eq by (simp add: percentage_candidateResult)
next
  assume "length (filter (\<lambda>u. role u = Voter) (getUsers s)) = 0"
  then show "turnoutPercentage (calculateResults L election s) = Num 0"
    by (simp add: calculateResults_def Let_def)
next
  show "turnoutPercentage (calculateResults L election s) \<noteq> NaN"
    by (simp add: calculateResults_def Let_def divide_counts_def)
  show "turnoutPercentage (calculateResults L election s) \<noteq> PosInfinity"
    by (simp add: calculateResults_def Let_def divide_counts_def)
qed

theorem calculateResults_no_division_by_zero_witness:
  "\<forall>L. position_totalVotes (result_positions (example_results L) ! 1) = 0 \<and>
       map percentage (result_candidates (result_positions (example_results L) ! 1)) =
         [Num 0, Num 0] \<and>
       length (filter (\<lambda>u. role u = Voter) (getUsers no_voters_store)) = 0 \<and>
       turnoutPercentage (calculateResults L example_election no_voters_store) = Num 0"
proof
  fix L
  have none: "length (filter (\<lambda>u. role u = Voter) (getUsers no_voters_store)) = 0"
    by (simp add: no_voters_store_def getUsers_def)
  from calculateResults_no_division_by_zero [of L example_election no_voters_store]
    calculateResults_no_division_by_zero [of L example_election tally_store] none
  show "position_totalVotes (result_positions (example_results L) ! 1) = 0 \<and>
       map percentage (result_candidates (result_positions (example_results L) ! 1)) =
         [Num 0, Num 0] \<and>
       length (filter (\<lambda>u. role u = Voter) (getUsers no_voters_store)) = 0 \<and>
       turnoutPercentage (calculateResults L example_election no_voters_store) = Num 0"
    by (simp add: example_results_eval)
qed

end
